theory Spec2Isabelle
  imports Complex_Main
begin

section \<open>The ledger of src/services/supabaseService.ts\<close>

text \<open>
  The service layer is a set of asynchronous functions, each a short sequence of calls to
  the hosted store: the tables \<open>profiles\<close>, \<open>deposits\<close>, \<open>withdrawals\<close> and \<open>settings\<close> of
  supabase/schema.sql, and the object storage. The embedding passes the store explicitly:
  every service function takes the store and returns its outcome together with the store
  it leaves behind, also when it throws, since the calls made before the throw stay
  applied.

  A monetary amount is a JavaScript number. It is modelled by the decimal number that its
  JSON text denotes, a rational; the rounding of binary floating-point arithmetic is not
  modelled, and neither are \<open>NaN\<close> and the infinities as amounts. The money columns are
  \<open>DECIMAL(15, 2)\<close>: the store rounds what it is given to two places and refuses what
  does not fit. Row identifiers (UUIDs) are strings. The bookkeeping columns \<open>created_at\<close>
  and \<open>updated_at\<close>, the columns the service never writes, and the row-level-security
  policies are left out.
\<close>

subsection \<open>Rows\<close>

type_synonym money = rat

datatype role = User | Admin
datatype kyc_status = KycPending | KycVerified | KycRejected
datatype account_status = Active | Hold
datatype deposit_status = DPending | DApproved | DRejected
datatype withdrawal_status = WPending | WProcessing | WHeld | WCompleted | WRejected | WFailed

record profile =
  email :: string
  name :: string
  phone :: "string option"
  role :: role
  balance :: money
  kyc_status :: kyc_status
  kyc_document :: "string option"
  account_status :: account_status
  hold_reason :: "string option"

record deposit =
  dep_user_id :: string
  dep_amount :: money
  dep_screenshot_url :: "string option"
  dep_status :: deposit_status
  dep_admin_note :: "string option"

record bank_details =
  bank_name :: string
  account_number :: string
  ifsc_code :: string
  account_holder_name :: string

text \<open>
  \<open>wd_processing_end_time\<close> is a \<open>TIMESTAMPTZ\<close>, held as milliseconds since the epoch, the
  time value of the JavaScript \<open>Date\<close> whose ISO string the service sends.
\<close>

record withdrawal =
  wd_user_id :: string
  wd_amount :: money
  wd_net_amount :: money
  wd_charges :: money
  wd_bank :: bank_details
  wd_status :: withdrawal_status
  wd_admin_note :: "string option"
  wd_admin_transaction_ref :: "string option"
  wd_payment_proof :: "string option"
  wd_processing_end_time :: "int option"

subsection \<open>Errors and the store\<close>

text \<open>
  A call to the tables answers \<open>{ data, error }\<close> with a \<open>PostgrestError\<close>, a call to the
  object storage with a \<open>StorageError\<close>. \<open>JsError msg\<close> is \<open>new Error(msg)\<close> thrown by the
  service itself, \<open>RangeError\<close> the error of \<open>Date.prototype.toISOString\<close>.

  Besides the four tables and the storage buckets the store keeps \<open>store_errors\<close>, the
  errors it has answered so far, newest first. No service function reads it. It is there
  to say which error the store gave to a call.
\<close>

datatype error = PostgrestError string | StorageError string | JsError string | RangeError string

record db =
  profiles :: "string \<rightharpoonup> profile"
  deposits :: "string \<rightharpoonup> deposit"
  withdrawals :: "string \<rightharpoonup> withdrawal"
  settings :: "string \<rightharpoonup> string"
  buckets :: "string \<rightharpoonup> (string \<rightharpoonup> string)"
  store_errors :: "error list"

text \<open>
  A store call can fail for reasons outside the ledger (network, authorization). The
  \<open>k\<close>-th store call of one service invocation is answered with the error \<open>msg\<close> when
  \<open>fs k = Some msg\<close>, and is served from the tables when \<open>fs k = None\<close>.
\<close>

type_synonym faults = "nat \<Rightarrow> string option"

definition no_faults :: faults where
  "no_faults = (\<lambda>k. None)"

definition fault_at :: "nat \<Rightarrow> string \<Rightarrow> faults" where
  "fault_at n msg = (\<lambda>k. if k = n then Some msg else None)"

definition refuse :: "error \<Rightarrow> db \<Rightarrow> (error + 'a) \<times> db" where
  "refuse e s = (Inl e, s\<lparr>store_errors := e # store_errors s\<rparr>)"

subsection \<open>Column types\<close>

text \<open>
  \<open>DECIMAL(15, 2)\<close>: a value is rounded to two places, ties away from zero, and refused
  with 22003 when the rounded value has an absolute value of \<open>10^13\<close> or more. \<open>cents\<close> is
  the rounded value in hundredths.
\<close>

definition cents :: "rat \<Rightarrow> int" where
  "cents x = (if 0 \<le> x then \<lfloor>x * 100 + 1 / 2\<rfloor> else - \<lfloor>- x * 100 + 1 / 2\<rfloor>)"

definition round2 :: "rat \<Rightarrow> rat" where
  "round2 x = of_int (cents x) / 100"

definition fits_decimal :: "rat \<Rightarrow> bool" where
  "fits_decimal x = (\<bar>cents x\<bar> < 10 ^ 15)"

definition two_places :: "rat \<Rightarrow> bool" where
  "two_places x = (round2 x = x)"

text \<open>
  \<open>TIMESTAMPTZ\<close>, written from the text of \<open>toISOString()\<close>. From 0001-01-01 to
  9999-12-31 that text is \<open>YYYY-MM-DDTHH:mm:ss.sssZ\<close>, which the store accepts. The year
  0000 it refuses as out of range (22008); outside the years 0000 to 9999 the text has a
  signed six-digit year, which the store does not read (22007).
\<close>

definition timestamp_refusal :: "int \<Rightarrow> string option" where
  "timestamp_refusal t =
     (if - 62135596800000 \<le> t \<and> t \<le> 253402300799999 then None
      else if - 62167219200000 \<le> t \<and> t < - 62135596800000 then Some ''22008''
      else Some ''22007'')"

subsection \<open>Calls to the tables\<close>

text \<open>A read that the store serves: the answer is the data, the store stays as it is.\<close>

definition served :: "string option \<Rightarrow> db \<Rightarrow> 'a \<Rightarrow> (error + 'a) \<times> db" where
  "served flt s data =
     (case flt of
        Some msg \<Rightarrow> refuse (PostgrestError msg) s
      | None \<Rightarrow> (Inr data, s))"

text \<open>\<open>.select(...).eq('id', userId).single()\<close> on \<open>profiles\<close>: no row is the error PGRST116.\<close>

definition select_profile_single :: "string option \<Rightarrow> db \<Rightarrow> string \<Rightarrow> (error + profile) \<times> db" where
  "select_profile_single flt s userId =
     (case flt of
        Some msg \<Rightarrow> refuse (PostgrestError msg) s
      | None \<Rightarrow>
          (case profiles s userId of
             None \<Rightarrow> refuse (PostgrestError ''PGRST116'') s
           | Some p \<Rightarrow> (Inr p, s)))"

text \<open>
  \<open>.update({...}).eq('id', id)\<close>. The object given is a partial row: a column that is
  present is written, a column that is absent (or \<open>undefined\<close>) keeps its value. A filter
  that matches no row updates nothing and is no error. On \<open>profiles\<close> a balance that does
  not fit is refused with 22003 and an email that another profile has with 23505
  (\<open>UNIQUE\<close>).
\<close>

record profile_updates =
  upd_email :: "string option"
  upd_name :: "string option"
  upd_phone :: "string option option"
  upd_role :: "role option"
  upd_balance :: "money option"
  upd_kyc_status :: "kyc_status option"
  upd_kyc_document :: "string option option"
  upd_account_status :: "account_status option"
  upd_hold_reason :: "string option option"

definition no_profile_updates :: profile_updates where
  "no_profile_updates =
     \<lparr>upd_email = None, upd_name = None, upd_phone = None, upd_role = None,
      upd_balance = None, upd_kyc_status = None, upd_kyc_document = None,
      upd_account_status = None, upd_hold_reason = None\<rparr>"

definition apply_updates :: "profile_updates \<Rightarrow> profile \<Rightarrow> profile" where
  "apply_updates u p =
     p\<lparr>email := (case upd_email u of None \<Rightarrow> email p | Some v \<Rightarrow> v),
       name := (case upd_name u of None \<Rightarrow> name p | Some v \<Rightarrow> v),
       phone := (case upd_phone u of None \<Rightarrow> phone p | Some v \<Rightarrow> v),
       role := (case upd_role u of None \<Rightarrow> role p | Some v \<Rightarrow> v),
       balance := (case upd_balance u of None \<Rightarrow> balance p | Some v \<Rightarrow> round2 v),
       kyc_status := (case upd_kyc_status u of None \<Rightarrow> kyc_status p | Some v \<Rightarrow> v),
       kyc_document := (case upd_kyc_document u of None \<Rightarrow> kyc_document p | Some v \<Rightarrow> v),
       account_status := (case upd_account_status u of None \<Rightarrow> account_status p | Some v \<Rightarrow> v),
       hold_reason := (case upd_hold_reason u of None \<Rightarrow> hold_reason p | Some v \<Rightarrow> v)\<rparr>"

definition balance_refused :: "profile_updates \<Rightarrow> bool" where
  "balance_refused u = (case upd_balance u of None \<Rightarrow> False | Some v \<Rightarrow> \<not> fits_decimal v)"

definition email_taken :: "db \<Rightarrow> string \<Rightarrow> profile_updates \<Rightarrow> bool" where
  "email_taken s userId u =
     (case upd_email u of
        None \<Rightarrow> False
      | Some a \<Rightarrow> (\<exists>other. other \<noteq> userId \<and> map_option email (profiles s other) = Some a))"

definition update_profile :: "string option \<Rightarrow> db \<Rightarrow> string \<Rightarrow> profile_updates \<Rightarrow> (error + unit) \<times> db" where
  "update_profile flt s userId u =
     (case flt of
        Some msg \<Rightarrow> refuse (PostgrestError msg) s
      | None \<Rightarrow>
          (case profiles s userId of
             None \<Rightarrow> (Inr (), s)
           | Some p \<Rightarrow>
               if balance_refused u then refuse (PostgrestError ''22003'') s
               else if email_taken s userId u then refuse (PostgrestError ''23505'') s
               else (Inr (), s\<lparr>profiles := (profiles s)(userId \<mapsto> apply_updates u p)\<rparr>)))"

record deposit_updates =
  set_dep_status :: "deposit_status option"
  set_dep_admin_note :: "string option"

definition apply_deposit_updates :: "deposit_updates \<Rightarrow> deposit \<Rightarrow> deposit" where
  "apply_deposit_updates u d =
     d\<lparr>dep_status := (case set_dep_status u of None \<Rightarrow> dep_status d | Some v \<Rightarrow> v),
       dep_admin_note := (case set_dep_admin_note u of None \<Rightarrow> dep_admin_note d | Some n \<Rightarrow> Some n)\<rparr>"

definition update_deposit :: "string option \<Rightarrow> db \<Rightarrow> string \<Rightarrow> deposit_updates \<Rightarrow> (error + unit) \<times> db" where
  "update_deposit flt s depositId u =
     (case flt of
        Some msg \<Rightarrow> refuse (PostgrestError msg) s
      | None \<Rightarrow>
          (case deposits s depositId of
             None \<Rightarrow> (Inr (), s)
           | Some d \<Rightarrow> (Inr (), s\<lparr>deposits := (deposits s)(depositId \<mapsto> apply_deposit_updates u d)\<rparr>)))"

text \<open>
  On \<open>withdrawals\<close> the transaction reference is always sent, as text or as null; the
  other columns are sent or absent. A deadline the column does not take is refused.
\<close>

record withdrawal_updates =
  set_status :: "withdrawal_status option"
  set_admin_note :: "string option"
  set_admin_transaction_ref :: "string option option"
  set_payment_proof :: "string option"
  set_processing_end_time :: "int option"

definition apply_withdrawal_updates :: "withdrawal_updates \<Rightarrow> withdrawal \<Rightarrow> withdrawal" where
  "apply_withdrawal_updates u w =
     w\<lparr>wd_status := (case set_status u of None \<Rightarrow> wd_status w | Some v \<Rightarrow> v),
       wd_admin_note := (case set_admin_note u of None \<Rightarrow> wd_admin_note w | Some n \<Rightarrow> Some n),
       wd_admin_transaction_ref :=
         (case set_admin_transaction_ref u of None \<Rightarrow> wd_admin_transaction_ref w | Some r \<Rightarrow> r),
       wd_payment_proof :=
         (case set_payment_proof u of None \<Rightarrow> wd_payment_proof w | Some b \<Rightarrow> Some b),
       wd_processing_end_time :=
         (case set_processing_end_time u of None \<Rightarrow> wd_processing_end_time w | Some t \<Rightarrow> Some t)\<rparr>"

definition deadline_refusal :: "withdrawal_updates \<Rightarrow> string option" where
  "deadline_refusal u =
     (case set_processing_end_time u of None \<Rightarrow> None | Some t \<Rightarrow> timestamp_refusal t)"

definition update_withdrawal ::
  "string option \<Rightarrow> db \<Rightarrow> string \<Rightarrow> withdrawal_updates \<Rightarrow> (error + unit) \<times> db" where
  "update_withdrawal flt s withdrawalId u =
     (case flt of
        Some msg \<Rightarrow> refuse (PostgrestError msg) s
      | None \<Rightarrow>
          (case withdrawals s withdrawalId of
             None \<Rightarrow> (Inr (), s)
           | Some w \<Rightarrow>
               (case deadline_refusal u of
                  Some code \<Rightarrow> refuse (PostgrestError code) s
                | None \<Rightarrow>
                    (Inr (), s\<lparr>withdrawals :=
                                 (withdrawals s)(withdrawalId \<mapsto> apply_withdrawal_updates u w)\<rparr>))))"

text \<open>
  \<open>.insert({...}).select().single()\<close>: the store picks the primary key (\<open>uuid_generate_v4()\<close>),
  here the argument \<open>newId\<close>, and answers the row as stored. The table \<open>deposits\<close> has a
  column \<open>screenshot_url\<close> and no column \<open>screenshot\<close>: an insert that carries a
  \<open>screenshot\<close> is refused with PGRST204. An amount that does not fit is refused with
  22003, a key already in the table with 23505, a \<open>user_id\<close> without a profile with 23503.
\<close>

definition insert_deposit ::
  "string option \<Rightarrow> db \<Rightarrow> string \<Rightarrow> string \<Rightarrow> money \<Rightarrow> string option
     \<Rightarrow> (error + string \<times> deposit) \<times> db" where
  "insert_deposit flt s newId userId amount screenshot =
     (case flt of
        Some msg \<Rightarrow> refuse (PostgrestError msg) s
      | None \<Rightarrow>
          if screenshot \<noteq> None then refuse (PostgrestError ''PGRST204'') s
          else if \<not> fits_decimal amount then refuse (PostgrestError ''22003'') s
          else if deposits s newId \<noteq> None then refuse (PostgrestError ''23505'') s
          else if profiles s userId = None then refuse (PostgrestError ''23503'') s
          else
            (Inr (newId,
                  \<lparr>dep_user_id = userId, dep_amount = round2 amount, dep_screenshot_url = None,
                   dep_status = DPending, dep_admin_note = None\<rparr>),
             s\<lparr>deposits := (deposits s)(newId \<mapsto>
                  \<lparr>dep_user_id = userId, dep_amount = round2 amount, dep_screenshot_url = None,
                   dep_status = DPending, dep_admin_note = None\<rparr>)\<rparr>))"

definition insert_withdrawal ::
  "string option \<Rightarrow> db \<Rightarrow> string \<Rightarrow> string \<Rightarrow> money \<Rightarrow> money \<Rightarrow> money \<Rightarrow> bank_details
     \<Rightarrow> (error + string \<times> withdrawal) \<times> db" where
  "insert_withdrawal flt s newId userId amount netAmount charges bankDetails =
     (case flt of
        Some msg \<Rightarrow> refuse (PostgrestError msg) s
      | None \<Rightarrow>
          if \<not> (fits_decimal amount \<and> fits_decimal netAmount \<and> fits_decimal charges)
          then refuse (PostgrestError ''22003'') s
          else if withdrawals s newId \<noteq> None then refuse (PostgrestError ''23505'') s
          else if profiles s userId = None then refuse (PostgrestError ''23503'') s
          else
            (Inr (newId,
                  \<lparr>wd_user_id = userId, wd_amount = round2 amount,
                   wd_net_amount = round2 netAmount, wd_charges = round2 charges,
                   wd_bank = bankDetails, wd_status = WPending,
                   wd_admin_note = None, wd_admin_transaction_ref = None,
                   wd_payment_proof = None, wd_processing_end_time = None\<rparr>),
             s\<lparr>withdrawals := (withdrawals s)(newId \<mapsto>
                  \<lparr>wd_user_id = userId, wd_amount = round2 amount,
                   wd_net_amount = round2 netAmount, wd_charges = round2 charges,
                   wd_bank = bankDetails, wd_status = WPending,
                   wd_admin_note = None, wd_admin_transaction_ref = None,
                   wd_payment_proof = None, wd_processing_end_time = None\<rparr>)\<rparr>))"

subsection \<open>withdrawalService\<close>

text \<open>
  \<open>create\<close>: read the profile, refuse an account on hold, refuse an amount above the
  balance, insert the pending row, then write the balance read at the start minus the amount.
\<close>

definition withdrawalService_create ::
  "faults \<Rightarrow> string \<Rightarrow> db \<Rightarrow> string \<Rightarrow> money \<Rightarrow> money \<Rightarrow> money \<Rightarrow> bank_details
     \<Rightarrow> (error + string \<times> withdrawal) \<times> db" where
  "withdrawalService_create fs newId s userId amount netAmount charges bankDetails =
     (case select_profile_single (fs 0) s userId of
        (Inl profileError, s0) \<Rightarrow> (Inl profileError, s0)
      | (Inr prof, s0) \<Rightarrow>
          if account_status prof = Hold
          then (Inl (JsError ''Account is on hold. Please contact support.''), s0)
          else if balance prof < amount
          then (Inl (JsError ''Insufficient balance''), s0)
          else
            (case insert_withdrawal (fs 1) s0 newId userId amount netAmount charges bankDetails of
               (Inl err, s1) \<Rightarrow> (Inl err, s1)
             | (Inr data, s1) \<Rightarrow>
                 (case update_profile (fs 2) s1 userId
                         (no_profile_updates\<lparr>upd_balance := Some (balance prof - amount)\<rparr>) of
                    (Inl balanceError, s2) \<Rightarrow> (Inl balanceError, s2)
                  | (Inr u, s2) \<Rightarrow> (Inr data, s2))))"

text \<open>
  The list queries answer the matching rows, here as the sub-table of these rows; their
  order (\<open>created_at\<close>, newest first) is not modelled. \<open>getAllWithdrawals\<close> joins the
  owner's name, email and account status, which are \<open>undefined\<close> when the join finds no
  profile.
\<close>

definition withdrawalService_getUserWithdrawals ::
  "faults \<Rightarrow> db \<Rightarrow> string \<Rightarrow> (error + (string \<rightharpoonup> withdrawal)) \<times> db" where
  "withdrawalService_getUserWithdrawals fs s userId =
     (case served (fs 0) s
             (\<lambda>withdrawalId.
                case withdrawals s withdrawalId of
                  None \<Rightarrow> None
                | Some w \<Rightarrow> if wd_user_id w = userId then Some w else None) of
        (Inl err, s1) \<Rightarrow> (Inl err, s1)
      | (Inr data, s1) \<Rightarrow> (Inr data, s1))"

definition withdrawalService_getAllWithdrawals ::
  "faults \<Rightarrow> db
     \<Rightarrow> (error + (string \<rightharpoonup> withdrawal \<times> string option \<times> string option \<times> account_status option))
        \<times> db" where
  "withdrawalService_getAllWithdrawals fs s =
     (case served (fs 0) s
             (\<lambda>withdrawalId.
                case withdrawals s withdrawalId of
                  None \<Rightarrow> None
                | Some w \<Rightarrow>
                    Some (w, map_option name (profiles s (wd_user_id w)),
                          map_option email (profiles s (wd_user_id w)),
                          map_option account_status (profiles s (wd_user_id w)))) of
        (Inl err, s1) \<Rightarrow> (Inl err, s1)
      | (Inr data, s1) \<Rightarrow> (Inr data, s1))"

text \<open>
  \<open>approve\<close>: one update of the row; \<open>transactionRef || null\<close> turns an absent or empty
  reference into null.
\<close>

definition withdrawalService_approve ::
  "faults \<Rightarrow> db \<Rightarrow> string \<Rightarrow> string \<Rightarrow> string option \<Rightarrow> (error + unit) \<times> db" where
  "withdrawalService_approve fs s withdrawalId userId transactionRef =
     (case update_withdrawal (fs 0) s withdrawalId
             \<lparr>set_status = Some WCompleted, set_admin_note = None,
              set_admin_transaction_ref =
                Some (case transactionRef of
                        None \<Rightarrow> None
                      | Some r \<Rightarrow> if r = [] then None else Some r),
              set_payment_proof = None, set_processing_end_time = None\<rparr> of
        (Inl err, s1) \<Rightarrow> (Inl err, s1)
      | (Inr u, s1) \<Rightarrow> (Inr (), s1))"

text \<open>
  \<open>reject\<close>: write the status and the note, read the balance of \<open>userId\<close>, write it back
  increased by \<open>amount\<close>. An \<open>adminNote\<close> that is \<open>undefined\<close> is absent from the update.
\<close>

definition withdrawalService_reject ::
  "faults \<Rightarrow> db \<Rightarrow> string \<Rightarrow> money \<Rightarrow> string \<Rightarrow> string option \<Rightarrow> (error + unit) \<times> db" where
  "withdrawalService_reject fs s withdrawalId amount userId adminNote =
     (case update_withdrawal (fs 0) s withdrawalId
             \<lparr>set_status = Some WRejected, set_admin_note = adminNote,
              set_admin_transaction_ref = None, set_payment_proof = None,
              set_processing_end_time = None\<rparr> of
        (Inl updateError, s1) \<Rightarrow> (Inl updateError, s1)
      | (Inr u, s1) \<Rightarrow>
          (case select_profile_single (fs 1) s1 userId of
             (Inl profileError, s2) \<Rightarrow> (Inl profileError, s2)
           | (Inr prof, s2) \<Rightarrow>
               (case update_profile (fs 2) s2 userId
                       (no_profile_updates\<lparr>upd_balance := Some (balance prof + amount)\<rparr>) of
                  (Inl balanceError, s3) \<Rightarrow> (Inl balanceError, s3)
                | (Inr v, s3) \<Rightarrow> (Inr (), s3))))"

definition withdrawalService_hold :: "faults \<Rightarrow> db \<Rightarrow> string \<Rightarrow> (error + unit) \<times> db" where
  "withdrawalService_hold fs s withdrawalId =
     (case update_withdrawal (fs 0) s withdrawalId
             \<lparr>set_status = Some WHeld, set_admin_note = None,
              set_admin_transaction_ref = None, set_payment_proof = None,
              set_processing_end_time = None\<rparr> of
        (Inl err, s1) \<Rightarrow> (Inl err, s1)
      | (Inr u, s1) \<Rightarrow> (Inr (), s1))"

text \<open>
  \<open>startProcessing\<close> builds the deadline with \<open>new Date()\<close>,
  \<open>setMinutes(getMinutes() + durationMinutes)\<close> and \<open>toISOString()\<close>, before it calls the
  store.

  \<open>time_now\<close> is the time value of \<open>new Date()\<close> in milliseconds. \<open>getMinutes\<close> and
  \<open>setMinutes\<close> work on local time: \<open>offset_now\<close> is the offset of local time from UTC at
  \<open>time_now\<close>, \<open>offset_after\<close> the offset that holds at the local time \<open>setMinutes\<close> arrives
  at; the two differ across a change of the clocks. \<open>durationMinutes\<close> is a JavaScript
  number, here a whole number of minutes, with \<open>None\<close> for \<open>NaN\<close> and the infinities (of a
  sum with a fraction \<open>setMinutes\<close> takes the whole part; such durations are left out). The \<open>Date\<close> is invalid, \<open>None\<close>, when the number is not
  finite or the time value leaves the range of \<open>8.64 * 10^15\<close> milliseconds, and
  \<open>toISOString\<close> of an invalid \<open>Date\<close> throws a \<open>RangeError\<close>.
\<close>

record clock =
  time_now :: int
  offset_now :: int
  offset_after :: int

definition processingEndTime :: "clock \<Rightarrow> int option \<Rightarrow> int option" where
  "processingEndTime clk durationMinutes =
     (case durationMinutes of
        None \<Rightarrow> None
      | Some d \<Rightarrow>
          (let t = time_now clk + offset_now clk + d * 60000 - offset_after clk
           in if \<bar>t\<bar> \<le> 8640000000000000 then Some t else None))"

definition withdrawalService_startProcessing ::
  "faults \<Rightarrow> clock \<Rightarrow> db \<Rightarrow> string \<Rightarrow> int option \<Rightarrow> (error + unit) \<times> db" where
  "withdrawalService_startProcessing fs clk s withdrawalId durationMinutes =
     (case processingEndTime clk durationMinutes of
        None \<Rightarrow> (Inl (RangeError ''Invalid time value''), s)
      | Some t \<Rightarrow>
          (case update_withdrawal (fs 0) s withdrawalId
                  \<lparr>set_status = Some WProcessing, set_admin_note = None,
                   set_admin_transaction_ref = None, set_payment_proof = None,
                   set_processing_end_time = Some t\<rparr> of
             (Inl err, s1) \<Rightarrow> (Inl err, s1)
           | (Inr u, s1) \<Rightarrow> (Inr (), s1)))"

text \<open>\<open>fail\<close>: as \<open>reject\<close>, with status \<open>failed\<close> and the mandatory reason as the note.\<close>

definition withdrawalService_fail ::
  "faults \<Rightarrow> db \<Rightarrow> string \<Rightarrow> money \<Rightarrow> string \<Rightarrow> string \<Rightarrow> (error + unit) \<times> db" where
  "withdrawalService_fail fs s withdrawalId amount userId reason =
     (case update_withdrawal (fs 0) s withdrawalId
             \<lparr>set_status = Some WFailed, set_admin_note = Some reason,
              set_admin_transaction_ref = None, set_payment_proof = None,
              set_processing_end_time = None\<rparr> of
        (Inl updateError, s1) \<Rightarrow> (Inl updateError, s1)
      | (Inr u, s1) \<Rightarrow>
          (case select_profile_single (fs 1) s1 userId of
             (Inl profileError, s2) \<Rightarrow> (Inl profileError, s2)
           | (Inr prof, s2) \<Rightarrow>
               (case update_profile (fs 2) s2 userId
                       (no_profile_updates\<lparr>upd_balance := Some (balance prof + amount)\<rparr>) of
                  (Inl balanceError, s3) \<Rightarrow> (Inl balanceError, s3)
                | (Inr v, s3) \<Rightarrow> (Inr (), s3))))"

definition withdrawalService_uploadPaymentProof ::
  "faults \<Rightarrow> db \<Rightarrow> string \<Rightarrow> string \<Rightarrow> (error + unit) \<times> db" where
  "withdrawalService_uploadPaymentProof fs s withdrawalId base64Proof =
     (case update_withdrawal (fs 0) s withdrawalId
             \<lparr>set_status = Some WCompleted, set_admin_note = None,
              set_admin_transaction_ref = None, set_payment_proof = Some base64Proof,
              set_processing_end_time = None\<rparr> of
        (Inl err, s1) \<Rightarrow> (Inl err, s1)
      | (Inr u, s1) \<Rightarrow> (Inr (), s1))"

subsection \<open>depositService\<close>

text \<open>\<open>create\<close>: one insert of a pending row; the account status is not read.\<close>

definition depositService_create ::
  "faults \<Rightarrow> string \<Rightarrow> db \<Rightarrow> string \<Rightarrow> money \<Rightarrow> string option
     \<Rightarrow> (error + string \<times> deposit) \<times> db" where
  "depositService_create fs newId s userId amount screenshot =
     (case insert_deposit (fs 0) s newId userId amount screenshot of
        (Inl err, s1) \<Rightarrow> (Inl err, s1)
      | (Inr data, s1) \<Rightarrow> (Inr data, s1))"

definition depositService_getUserDeposits ::
  "faults \<Rightarrow> db \<Rightarrow> string \<Rightarrow> (error + (string \<rightharpoonup> deposit)) \<times> db" where
  "depositService_getUserDeposits fs s userId =
     (case served (fs 0) s
             (\<lambda>depositId.
                case deposits s depositId of
                  None \<Rightarrow> None
                | Some d \<Rightarrow> if dep_user_id d = userId then Some d else None) of
        (Inl err, s1) \<Rightarrow> (Inl err, s1)
      | (Inr data, s1) \<Rightarrow> (Inr data, s1))"

definition depositService_getAllDeposits ::
  "faults \<Rightarrow> db \<Rightarrow> (error + (string \<rightharpoonup> deposit \<times> string option \<times> string option)) \<times> db" where
  "depositService_getAllDeposits fs s =
     (case served (fs 0) s
             (\<lambda>depositId.
                case deposits s depositId of
                  None \<Rightarrow> None
                | Some d \<Rightarrow>
                    Some (d, map_option name (profiles s (dep_user_id d)),
                          map_option email (profiles s (dep_user_id d)))) of
        (Inl err, s1) \<Rightarrow> (Inl err, s1)
      | (Inr data, s1) \<Rightarrow> (Inr data, s1))"

text \<open>
  \<open>approve\<close>: write the status, read the balance of \<open>userId\<close>, write it back increased by
  \<open>amount\<close>. Both \<open>userId\<close> and \<open>amount\<close> are arguments of the call, not read from the row.
\<close>

definition depositService_approve ::
  "faults \<Rightarrow> db \<Rightarrow> string \<Rightarrow> string \<Rightarrow> money \<Rightarrow> (error + unit) \<times> db" where
  "depositService_approve fs s depositId userId amount =
     (case update_deposit (fs 0) s depositId
             \<lparr>set_dep_status = Some DApproved, set_dep_admin_note = None\<rparr> of
        (Inl depositError, s1) \<Rightarrow> (Inl depositError, s1)
      | (Inr u, s1) \<Rightarrow>
          (case select_profile_single (fs 1) s1 userId of
             (Inl profileError, s2) \<Rightarrow> (Inl profileError, s2)
           | (Inr prof, s2) \<Rightarrow>
               (case update_profile (fs 2) s2 userId
                       (no_profile_updates\<lparr>upd_balance := Some (balance prof + amount)\<rparr>) of
                  (Inl balanceError, s3) \<Rightarrow> (Inl balanceError, s3)
                | (Inr v, s3) \<Rightarrow> (Inr (), s3))))"

definition depositService_reject ::
  "faults \<Rightarrow> db \<Rightarrow> string \<Rightarrow> string option \<Rightarrow> (error + unit) \<times> db" where
  "depositService_reject fs s depositId adminNote =
     (case update_deposit (fs 0) s depositId
             \<lparr>set_dep_status = Some DRejected, set_dep_admin_note = adminNote\<rparr> of
        (Inl err, s1) \<Rightarrow> (Inl err, s1)
      | (Inr u, s1) \<Rightarrow> (Inr (), s1))"

subsection \<open>settingsService\<close>

text \<open>
  \<open>get\<close>: \<open>.select('value').eq('key', key).single()\<close>; on any error of the store, a missing
  key included, the error is logged to the console and the function returns null.
\<close>

definition select_setting_single :: "string option \<Rightarrow> db \<Rightarrow> string \<Rightarrow> (error + string) \<times> db" where
  "select_setting_single flt s key =
     (case flt of
        Some msg \<Rightarrow> refuse (PostgrestError msg) s
      | None \<Rightarrow>
          (case settings s key of
             None \<Rightarrow> refuse (PostgrestError ''PGRST116'') s
           | Some v \<Rightarrow> (Inr v, s)))"

definition settingsService_get :: "faults \<Rightarrow> db \<Rightarrow> string \<Rightarrow> (error + string option) \<times> db" where
  "settingsService_get fs s key =
     (case select_setting_single (fs 0) s key of
        (Inl err, s1) \<Rightarrow> (Inr None, s1)
      | (Inr v, s1) \<Rightarrow> (Inr (Some v), s1))"

text \<open>
  \<open>getAll\<close> copies the rows into a plain object, \<open>settings[item.key] = item.value\<close>. For the
  key \<open>__proto__\<close> that assignment sets nothing, so this key is never in the result.
\<close>

definition settingsService_getAll :: "faults \<Rightarrow> db \<Rightarrow> (error + (string \<rightharpoonup> string)) \<times> db" where
  "settingsService_getAll fs s =
     (case served (fs 0) s (settings s) of
        (Inl err, s1) \<Rightarrow> (Inl err, s1)
      | (Inr data, s1) \<Rightarrow> (Inr (data(''__proto__'' := None)), s1))"

text \<open>\<open>update\<close>: \<open>.upsert({ key, value }, { onConflict: 'key' })\<close>.\<close>

definition upsert_setting :: "string option \<Rightarrow> db \<Rightarrow> string \<Rightarrow> string \<Rightarrow> (error + unit) \<times> db" where
  "upsert_setting flt s key v =
     (case flt of
        Some msg \<Rightarrow> refuse (PostgrestError msg) s
      | None \<Rightarrow> (Inr (), s\<lparr>settings := (settings s)(key \<mapsto> v)\<rparr>))"

definition settingsService_update :: "faults \<Rightarrow> db \<Rightarrow> string \<Rightarrow> string \<Rightarrow> (error + unit) \<times> db" where
  "settingsService_update fs s key v =
     (case upsert_setting (fs 0) s key v of
        (Inl err, s1) \<Rightarrow> (Inl err, s1)
      | (Inr u, s1) \<Rightarrow> (Inr (), s1))"

text \<open>
  \<open>getBankDetails\<close>: all settings, each field with its default where the setting is absent
  or empty (\<open>||\<close>). \<open>updateBankDetails\<close>: five \<open>update\<close> calls in a row; the first that
  throws ends the function, the earlier ones stay written.
\<close>

record bank_settings =
  bankName :: string
  accountName :: string
  accountNumber :: string
  ifscCode :: string
  branch :: string

definition or_default :: "string option \<Rightarrow> string \<Rightarrow> string" where
  "or_default v d = (case v of None \<Rightarrow> d | Some x \<Rightarrow> if x = [] then d else x)"

definition settingsService_getBankDetails :: "faults \<Rightarrow> db \<Rightarrow> (error + bank_settings) \<times> db" where
  "settingsService_getBankDetails fs s =
     (case settingsService_getAll fs s of
        (Inl err, s1) \<Rightarrow> (Inl err, s1)
      | (Inr st, s1) \<Rightarrow>
          (Inr \<lparr>bankName = or_default (st ''bank_name'') ''State Bank of India'',
                accountName = or_default (st ''account_name'') ''TradeX Technologies Pvt Ltd'',
                accountNumber = or_default (st ''account_number'') ''1234567890123456'',
                ifscCode = or_default (st ''ifsc_code'') ''SBIN0001234'',
                branch = or_default (st ''bank_branch'') ''Main Branch, Mumbai''\<rparr>, s1))"

definition settingsService_updateBankDetails ::
  "faults \<Rightarrow> db \<Rightarrow> bank_settings \<Rightarrow> (error + unit) \<times> db" where
  "settingsService_updateBankDetails fs s bankDetails =
     (case settingsService_update fs s ''bank_name'' (bankName bankDetails) of
        (Inl err, s1) \<Rightarrow> (Inl err, s1)
      | (Inr u1, s1) \<Rightarrow>
     (case settingsService_update (\<lambda>k. fs (k + 1)) s1 ''account_name'' (accountName bankDetails) of
        (Inl err, s2) \<Rightarrow> (Inl err, s2)
      | (Inr u2, s2) \<Rightarrow>
     (case settingsService_update (\<lambda>k. fs (k + 2)) s2 ''account_number'' (accountNumber bankDetails) of
        (Inl err, s3) \<Rightarrow> (Inl err, s3)
      | (Inr u3, s3) \<Rightarrow>
     (case settingsService_update (\<lambda>k. fs (k + 3)) s3 ''ifsc_code'' (ifscCode bankDetails) of
        (Inl err, s4) \<Rightarrow> (Inl err, s4)
      | (Inr u4, s4) \<Rightarrow>
     (case settingsService_update (\<lambda>k. fs (k + 4)) s4 ''bank_branch'' (branch bankDetails) of
        (Inl err, s5) \<Rightarrow> (Inl err, s5)
      | (Inr u5, s5) \<Rightarrow> (Inr (), s5))))))"

subsection \<open>profileService\<close>

definition profileService_getProfile :: "faults \<Rightarrow> db \<Rightarrow> string \<Rightarrow> (error + profile) \<times> db" where
  "profileService_getProfile fs s userId =
     (case select_profile_single (fs 0) s userId of
        (Inl err, s1) \<Rightarrow> (Inl err, s1)
      | (Inr data, s1) \<Rightarrow> (Inr data, s1))"

text \<open>
  \<open>updateProfile(userId, updates: any)\<close>: \<open>updates\<close> is any partial row, here of values
  that have the JSON type of their column; \<open>role\<close>, \<open>kyc_status\<close> and \<open>account_status\<close> are
  text under a \<open>CHECK\<close> constraint, refused with 23514 when the text is none of the
  allowed ones. The call ends in \<open>.select().single()\<close>, so a \<open>userId\<close> without a row is the
  error PGRST116.
\<close>

record profile_json =
  json_email :: "string option"
  json_name :: "string option"
  json_phone :: "string option option"
  json_role :: "string option"
  json_balance :: "money option"
  json_kyc_status :: "string option"
  json_kyc_document :: "string option option"
  json_account_status :: "string option"
  json_hold_reason :: "string option option"

definition role_of_text :: "string \<Rightarrow> role option" where
  "role_of_text x =
     (if x = ''user'' then Some User else if x = ''admin'' then Some Admin else None)"

definition kyc_status_of_text :: "string \<Rightarrow> kyc_status option" where
  "kyc_status_of_text x =
     (if x = ''pending'' then Some KycPending
      else if x = ''verified'' then Some KycVerified
      else if x = ''rejected'' then Some KycRejected
      else None)"

definition account_status_of_text :: "string \<Rightarrow> account_status option" where
  "account_status_of_text x =
     (if x = ''active'' then Some Active else if x = ''hold'' then Some Hold else None)"

definition check_violated :: "profile_json \<Rightarrow> bool" where
  "check_violated j =
     ((case json_role j of None \<Rightarrow> False | Some x \<Rightarrow> role_of_text x = None) \<or>
      (case json_kyc_status j of None \<Rightarrow> False | Some x \<Rightarrow> kyc_status_of_text x = None) \<or>
      (case json_account_status j of None \<Rightarrow> False | Some x \<Rightarrow> account_status_of_text x = None))"

definition typed_updates :: "profile_json \<Rightarrow> profile_updates" where
  "typed_updates j =
     \<lparr>upd_email = json_email j, upd_name = json_name j, upd_phone = json_phone j,
      upd_role = (case json_role j of None \<Rightarrow> None | Some x \<Rightarrow> role_of_text x),
      upd_balance = json_balance j,
      upd_kyc_status = (case json_kyc_status j of None \<Rightarrow> None | Some x \<Rightarrow> kyc_status_of_text x),
      upd_kyc_document = json_kyc_document j,
      upd_account_status =
        (case json_account_status j of None \<Rightarrow> None | Some x \<Rightarrow> account_status_of_text x),
      upd_hold_reason = json_hold_reason j\<rparr>"

definition update_profile_select_single ::
  "string option \<Rightarrow> db \<Rightarrow> string \<Rightarrow> profile_json \<Rightarrow> (error + profile) \<times> db" where
  "update_profile_select_single flt s userId j =
     (case flt of
        Some msg \<Rightarrow> refuse (PostgrestError msg) s
      | None \<Rightarrow>
          (case profiles s userId of
             None \<Rightarrow> refuse (PostgrestError ''PGRST116'') s
           | Some p \<Rightarrow>
               if balance_refused (typed_updates j) then refuse (PostgrestError ''22003'') s
               else if check_violated j then refuse (PostgrestError ''23514'') s
               else if email_taken s userId (typed_updates j) then refuse (PostgrestError ''23505'') s
               else (Inr (apply_updates (typed_updates j) p),
                     s\<lparr>profiles := (profiles s)(userId \<mapsto> apply_updates (typed_updates j) p)\<rparr>)))"

definition profileService_updateProfile ::
  "faults \<Rightarrow> db \<Rightarrow> string \<Rightarrow> profile_json \<Rightarrow> (error + profile) \<times> db" where
  "profileService_updateProfile fs s userId updates =
     (case update_profile_select_single (fs 0) s userId updates of
        (Inl err, s1) \<Rightarrow> (Inl err, s1)
      | (Inr data, s1) \<Rightarrow> (Inr data, s1))"

definition profileService_getAllUsers :: "faults \<Rightarrow> db \<Rightarrow> (error + (string \<rightharpoonup> profile)) \<times> db" where
  "profileService_getAllUsers fs s =
     (case served (fs 0) s (profiles s) of
        (Inl err, s1) \<Rightarrow> (Inl err, s1)
      | (Inr data, s1) \<Rightarrow> (Inr data, s1))"

definition profileService_updateBalance ::
  "faults \<Rightarrow> db \<Rightarrow> string \<Rightarrow> money \<Rightarrow> (error + unit) \<times> db" where
  "profileService_updateBalance fs s userId newBalance =
     (case update_profile (fs 0) s userId (no_profile_updates\<lparr>upd_balance := Some newBalance\<rparr>) of
        (Inl err, s1) \<Rightarrow> (Inl err, s1)
      | (Inr u, s1) \<Rightarrow> (Inr (), s1))"

text \<open>
  \<open>setAccountStatus\<close>: \<open>hold_reason: status === 'hold' ? reason : null\<close>; with \<open>hold\<close> and no
  reason the column is absent from the update and keeps its value.
\<close>

definition profileService_setAccountStatus ::
  "faults \<Rightarrow> db \<Rightarrow> string \<Rightarrow> account_status \<Rightarrow> string option \<Rightarrow> (error + unit) \<times> db" where
  "profileService_setAccountStatus fs s userId status reason =
     (case update_profile (fs 0) s userId
             (no_profile_updates
                \<lparr>upd_account_status := Some status,
                 upd_hold_reason :=
                   (if status = Hold
                    then (case reason of None \<Rightarrow> None | Some r \<Rightarrow> Some (Some r))
                    else Some None)\<rparr>) of
        (Inl err, s1) \<Rightarrow> (Inl err, s1)
      | (Inr u, s1) \<Rightarrow> (Inr (), s1))"

definition profileService_updateKycStatus ::
  "faults \<Rightarrow> db \<Rightarrow> string \<Rightarrow> kyc_status \<Rightarrow> (error + unit) \<times> db" where
  "profileService_updateKycStatus fs s userId status =
     (case update_profile (fs 0) s userId (no_profile_updates\<lparr>upd_kyc_status := Some status\<rparr>) of
        (Inl err, s1) \<Rightarrow> (Inl err, s1)
      | (Inr u, s1) \<Rightarrow> (Inr (), s1))"

definition profileService_submitKyc ::
  "faults \<Rightarrow> db \<Rightarrow> string \<Rightarrow> string \<Rightarrow> (error + unit) \<times> db" where
  "profileService_submitKyc fs s userId documentUrl =
     (case update_profile (fs 0) s userId
             (no_profile_updates
                \<lparr>upd_kyc_document := Some (Some documentUrl), upd_kyc_status := Some KycPending\<rparr>) of
        (Inl err, s1) \<Rightarrow> (Inl err, s1)
      | (Inr u, s1) \<Rightarrow> (Inr (), s1))"

subsection \<open>storageService\<close>

text \<open>
  An upload puts the file's bytes under a path of a bucket. It is refused when the bucket
  does not exist, and when the path is taken and the call does not ask to overwrite
  (\<open>upsert\<close>). \<open>getPublicUrl\<close> is the client library's function from bucket and path to a
  URL; it calls nothing and is an argument here. The file name is built from
  \<open>Date.now()\<close>, the argument \<open>dateNow\<close>, and the text after the last dot of the file's
  name (\<open>file.name.split('.').pop()\<close>).
\<close>

record js_file =
  file_name :: string
  file_data :: string

definition storage_upload ::
  "string option \<Rightarrow> db \<Rightarrow> string \<Rightarrow> string \<Rightarrow> js_file \<Rightarrow> bool \<Rightarrow> (error + unit) \<times> db" where
  "storage_upload flt s bucket path f upsert =
     (case flt of
        Some msg \<Rightarrow> refuse (StorageError msg) s
      | None \<Rightarrow>
          (case buckets s bucket of
             None \<Rightarrow> refuse (StorageError ''Bucket not found'') s
           | Some objects \<Rightarrow>
               if objects path \<noteq> None \<and> \<not> upsert
               then refuse (StorageError ''The resource already exists'') s
               else (Inr (), s\<lparr>buckets := (buckets s)(bucket \<mapsto> objects(path \<mapsto> file_data f))\<rparr>)))"

definition fileExt :: "string \<Rightarrow> string" where
  "fileExt n = rev (takeWhile (\<lambda>c. c \<noteq> CHR ''.'') (rev n))"

function show_nat :: "nat \<Rightarrow> string" where
  "show_nat n =
     (if n < 10 then [''0123456789'' ! n]
      else show_nat (n div 10) @ [''0123456789'' ! (n mod 10)])"
  by pat_completeness auto
termination
  by (relation "measure id") auto

definition show_int :: "int \<Rightarrow> string" where
  "show_int i = (if i < 0 then CHR ''-'' # show_nat (nat (- i)) else show_nat (nat i))"

definition storageService_uploadScreenshot ::
  "faults \<Rightarrow> (string \<Rightarrow> string \<Rightarrow> string) \<Rightarrow> int \<Rightarrow> db \<Rightarrow> js_file \<Rightarrow> string \<Rightarrow> (error + string) \<times> db" where
  "storageService_uploadScreenshot fs getPublicUrl dateNow s f userId =
     (case storage_upload (fs 0) s ''screenshots''
             (userId @ ''/'' @ show_int dateNow @ ''.'' @ fileExt (file_name f)) f False of
        (Inl err, s1) \<Rightarrow> (Inl err, s1)
      | (Inr u, s1) \<Rightarrow>
          (Inr (getPublicUrl ''screenshots''
                  (userId @ ''/'' @ show_int dateNow @ ''.'' @ fileExt (file_name f))), s1))"

definition storageService_uploadKycDocument ::
  "faults \<Rightarrow> (string \<Rightarrow> string \<Rightarrow> string) \<Rightarrow> int \<Rightarrow> db \<Rightarrow> js_file \<Rightarrow> string \<Rightarrow> (error + string) \<times> db" where
  "storageService_uploadKycDocument fs getPublicUrl dateNow s f userId =
     (case storage_upload (fs 0) s ''kyc-documents''
             (userId @ ''/kyc_'' @ show_int dateNow @ ''.'' @ fileExt (file_name f)) f False of
        (Inl err, s1) \<Rightarrow> (Inl err, s1)
      | (Inr u, s1) \<Rightarrow>
          (Inr (getPublicUrl ''kyc-documents''
                  (userId @ ''/kyc_'' @ show_int dateNow @ ''.'' @ fileExt (file_name f))), s1))"

definition storageService_uploadQrCode ::
  "faults \<Rightarrow> (string \<Rightarrow> string \<Rightarrow> string) \<Rightarrow> int \<Rightarrow> db \<Rightarrow> js_file \<Rightarrow> (error + string) \<times> db" where
  "storageService_uploadQrCode fs getPublicUrl dateNow s f =
     (case storage_upload (fs 0) s ''admin-assets''
             (''qr_'' @ show_int dateNow @ ''.'' @ fileExt (file_name f)) f True of
        (Inl err, s1) \<Rightarrow> (Inl err, s1)
      | (Inr u, s1) \<Rightarrow>
          (Inr (getPublicUrl ''admin-assets''
                  (''qr_'' @ show_int dateNow @ ''.'' @ fileExt (file_name f))), s1))"

subsection \<open>The caller's fee computation\<close>

text \<open>
  components/withdrawal/WithdrawalModal.tsx computes the net amount it passes to
  \<open>withdrawalService.create\<close>: \<open>const netAmount = numAmount - withdrawalCharges\<close>.
\<close>

definition netAmount :: "money \<Rightarrow> money \<Rightarrow> money" where
  "netAmount numAmount withdrawalCharges = numAmount - withdrawalCharges"

subsection \<open>Sequences of operations\<close>

text \<open>
  A reachable store is what a sequence of service calls leaves behind. A \<open>command\<close> is one
  call with its arguments and with what it takes from its surroundings (the clock, the
  new row's id, \<open>getPublicUrl\<close>); \<open>exec\<close> runs it under a given answer pattern of the
  store and keeps the resulting store, whether the call returned or threw.
\<close>

datatype command =
    DepositCreate string string money "string option"
  | GetUserDeposits string
  | GetAllDeposits
  | DepositApprove string string money
  | DepositReject string "string option"
  | WithdrawalCreate string string money money money bank_details
  | GetUserWithdrawals string
  | GetAllWithdrawals
  | WithdrawalApprove string string "string option"
  | WithdrawalReject string money string "string option"
  | WithdrawalHold string
  | WithdrawalStartProcessing clock string "int option"
  | WithdrawalFail string money string string
  | WithdrawalUploadPaymentProof string string
  | SettingsGet string
  | SettingsGetAll
  | SettingsUpdate string string
  | GetBankDetails
  | UpdateBankDetails bank_settings
  | GetProfile string
  | GetAllUsers
  | UpdateProfile string profile_json
  | UpdateBalance string money
  | SetAccountStatus string account_status "string option"
  | UpdateKycStatus string kyc_status
  | SubmitKyc string string
  | UploadScreenshot "string \<Rightarrow> string \<Rightarrow> string" int js_file string
  | UploadKycDocument "string \<Rightarrow> string \<Rightarrow> string" int js_file string
  | UploadQrCode "string \<Rightarrow> string \<Rightarrow> string" int js_file

fun exec :: "faults \<Rightarrow> command \<Rightarrow> db \<Rightarrow> db" where
  "exec fs (DepositCreate newId userId amount screenshot) s =
     snd (depositService_create fs newId s userId amount screenshot)"
| "exec fs (GetUserDeposits userId) s =
     snd (depositService_getUserDeposits fs s userId)"
| "exec fs GetAllDeposits s =
     snd (depositService_getAllDeposits fs s)"
| "exec fs (DepositApprove depositId userId amount) s =
     snd (depositService_approve fs s depositId userId amount)"
| "exec fs (DepositReject depositId adminNote) s =
     snd (depositService_reject fs s depositId adminNote)"
| "exec fs (WithdrawalCreate newId userId amount net charges bankDetails) s =
     snd (withdrawalService_create fs newId s userId amount net charges bankDetails)"
| "exec fs (GetUserWithdrawals userId) s =
     snd (withdrawalService_getUserWithdrawals fs s userId)"
| "exec fs GetAllWithdrawals s =
     snd (withdrawalService_getAllWithdrawals fs s)"
| "exec fs (WithdrawalApprove withdrawalId userId transactionRef) s =
     snd (withdrawalService_approve fs s withdrawalId userId transactionRef)"
| "exec fs (WithdrawalReject withdrawalId amount userId adminNote) s =
     snd (withdrawalService_reject fs s withdrawalId amount userId adminNote)"
| "exec fs (WithdrawalHold withdrawalId) s =
     snd (withdrawalService_hold fs s withdrawalId)"
| "exec fs (WithdrawalStartProcessing clk withdrawalId durationMinutes) s =
     snd (withdrawalService_startProcessing fs clk s withdrawalId durationMinutes)"
| "exec fs (WithdrawalFail withdrawalId amount userId reason) s =
     snd (withdrawalService_fail fs s withdrawalId amount userId reason)"
| "exec fs (WithdrawalUploadPaymentProof withdrawalId base64Proof) s =
     snd (withdrawalService_uploadPaymentProof fs s withdrawalId base64Proof)"
| "exec fs (SettingsGet key) s =
     snd (settingsService_get fs s key)"
| "exec fs SettingsGetAll s =
     snd (settingsService_getAll fs s)"
| "exec fs (SettingsUpdate key v) s =
     snd (settingsService_update fs s key v)"
| "exec fs GetBankDetails s =
     snd (settingsService_getBankDetails fs s)"
| "exec fs (UpdateBankDetails bankDetails) s =
     snd (settingsService_updateBankDetails fs s bankDetails)"
| "exec fs (GetProfile userId) s =
     snd (profileService_getProfile fs s userId)"
| "exec fs GetAllUsers s =
     snd (profileService_getAllUsers fs s)"
| "exec fs (UpdateProfile userId updates) s =
     snd (profileService_updateProfile fs s userId updates)"
| "exec fs (UpdateBalance userId newBalance) s =
     snd (profileService_updateBalance fs s userId newBalance)"
| "exec fs (SetAccountStatus userId status reason) s =
     snd (profileService_setAccountStatus fs s userId status reason)"
| "exec fs (UpdateKycStatus userId status) s =
     snd (profileService_updateKycStatus fs s userId status)"
| "exec fs (SubmitKyc userId documentUrl) s =
     snd (profileService_submitKyc fs s userId documentUrl)"
| "exec fs (UploadScreenshot getPublicUrl dateNow f userId) s =
     snd (storageService_uploadScreenshot fs getPublicUrl dateNow s f userId)"
| "exec fs (UploadKycDocument getPublicUrl dateNow f userId) s =
     snd (storageService_uploadKycDocument fs getPublicUrl dateNow s f userId)"
| "exec fs (UploadQrCode getPublicUrl dateNow f) s =
     snd (storageService_uploadQrCode fs getPublicUrl dateNow s f)"

text \<open>What the caller of a command catches: the error thrown, or nothing on a normal return.\<close>

definition error_of :: "error + 'a \<Rightarrow> error option" where
  "error_of r = (case r of Inl e \<Rightarrow> Some e | Inr v \<Rightarrow> None)"

fun thrown :: "faults \<Rightarrow> command \<Rightarrow> db \<Rightarrow> error option" where
  "thrown fs (DepositCreate newId userId amount screenshot) s =
     error_of (fst (depositService_create fs newId s userId amount screenshot))"
| "thrown fs (GetUserDeposits userId) s =
     error_of (fst (depositService_getUserDeposits fs s userId))"
| "thrown fs GetAllDeposits s =
     error_of (fst (depositService_getAllDeposits fs s))"
| "thrown fs (DepositApprove depositId userId amount) s =
     error_of (fst (depositService_approve fs s depositId userId amount))"
| "thrown fs (DepositReject depositId adminNote) s =
     error_of (fst (depositService_reject fs s depositId adminNote))"
| "thrown fs (WithdrawalCreate newId userId amount net charges bankDetails) s =
     error_of (fst (withdrawalService_create fs newId s userId amount net charges bankDetails))"
| "thrown fs (GetUserWithdrawals userId) s =
     error_of (fst (withdrawalService_getUserWithdrawals fs s userId))"
| "thrown fs GetAllWithdrawals s =
     error_of (fst (withdrawalService_getAllWithdrawals fs s))"
| "thrown fs (WithdrawalApprove withdrawalId userId transactionRef) s =
     error_of (fst (withdrawalService_approve fs s withdrawalId userId transactionRef))"
| "thrown fs (WithdrawalReject withdrawalId amount userId adminNote) s =
     error_of (fst (withdrawalService_reject fs s withdrawalId amount userId adminNote))"
| "thrown fs (WithdrawalHold withdrawalId) s =
     error_of (fst (withdrawalService_hold fs s withdrawalId))"
| "thrown fs (WithdrawalStartProcessing clk withdrawalId durationMinutes) s =
     error_of (fst (withdrawalService_startProcessing fs clk s withdrawalId durationMinutes))"
| "thrown fs (WithdrawalFail withdrawalId amount userId reason) s =
     error_of (fst (withdrawalService_fail fs s withdrawalId amount userId reason))"
| "thrown fs (WithdrawalUploadPaymentProof withdrawalId base64Proof) s =
     error_of (fst (withdrawalService_uploadPaymentProof fs s withdrawalId base64Proof))"
| "thrown fs (SettingsGet key) s =
     error_of (fst (settingsService_get fs s key))"
| "thrown fs SettingsGetAll s =
     error_of (fst (settingsService_getAll fs s))"
| "thrown fs (SettingsUpdate key v) s =
     error_of (fst (settingsService_update fs s key v))"
| "thrown fs GetBankDetails s =
     error_of (fst (settingsService_getBankDetails fs s))"
| "thrown fs (UpdateBankDetails bankDetails) s =
     error_of (fst (settingsService_updateBankDetails fs s bankDetails))"
| "thrown fs (GetProfile userId) s =
     error_of (fst (profileService_getProfile fs s userId))"
| "thrown fs GetAllUsers s =
     error_of (fst (profileService_getAllUsers fs s))"
| "thrown fs (UpdateProfile userId updates) s =
     error_of (fst (profileService_updateProfile fs s userId updates))"
| "thrown fs (UpdateBalance userId newBalance) s =
     error_of (fst (profileService_updateBalance fs s userId newBalance))"
| "thrown fs (SetAccountStatus userId status reason) s =
     error_of (fst (profileService_setAccountStatus fs s userId status reason))"
| "thrown fs (UpdateKycStatus userId status) s =
     error_of (fst (profileService_updateKycStatus fs s userId status))"
| "thrown fs (SubmitKyc userId documentUrl) s =
     error_of (fst (profileService_submitKyc fs s userId documentUrl))"
| "thrown fs (UploadScreenshot getPublicUrl dateNow f userId) s =
     error_of (fst (storageService_uploadScreenshot fs getPublicUrl dateNow s f userId))"
| "thrown fs (UploadKycDocument getPublicUrl dateNow f userId) s =
     error_of (fst (storageService_uploadKycDocument fs getPublicUrl dateNow s f userId))"
| "thrown fs (UploadQrCode getPublicUrl dateNow f) s =
     error_of (fst (storageService_uploadQrCode fs getPublicUrl dateNow s f))"

text \<open>
  The errors a service function raises itself, without an error of the store: the two
  refusals of \<open>withdrawalService.create\<close> and the \<open>RangeError\<close> of \<open>startProcessing\<close>.
\<close>

fun own_error :: "command \<Rightarrow> error \<Rightarrow> bool" where
  "own_error (WithdrawalCreate newId userId amount net charges bankDetails) e =
     (e = JsError ''Account is on hold. Please contact support.'' \<or>
      e = JsError ''Insufficient balance'')"
| "own_error (WithdrawalStartProcessing clk withdrawalId durationMinutes) e =
     (e = RangeError ''Invalid time value'')"
| "own_error c e = False"

fun run :: "(faults \<times> command) list \<Rightarrow> db \<Rightarrow> db" where
  "run [] s = s"
| "run ((fs, c) # cs) s = run cs (exec fs c s)"

definition balances_nonneg :: "db \<Rightarrow> bool" where
  "balances_nonneg s = (\<forall>userId p. profiles s userId = Some p \<longrightarrow> 0 \<le> balance p)"

text \<open>
  The numbers a command hands over for a balance write: the amount credited by
  \<open>depositService.approve\<close>, \<open>withdrawalService.reject\<close> and \<open>withdrawalService.fail\<close>, and the
  balance written by \<open>profileService.updateBalance\<close> and \<open>profileService.updateProfile\<close>.
\<close>

fun writes_nonneg :: "command \<Rightarrow> bool" where
  "writes_nonneg (DepositApprove depositId userId amount) = (0 \<le> amount)"
| "writes_nonneg (WithdrawalReject withdrawalId amount userId adminNote) = (0 \<le> amount)"
| "writes_nonneg (WithdrawalFail withdrawalId amount userId reason) = (0 \<le> amount)"
| "writes_nonneg (UpdateBalance userId newBalance) = (0 \<le> newBalance)"
| "writes_nonneg (UpdateProfile userId updates) =
     (case json_balance updates of None \<Rightarrow> True | Some b \<Rightarrow> 0 \<le> b)"
| "writes_nonneg c = True"

subsection \<open>Example stores\<close>

text \<open>
  One user \<open>u1\<close> with balance 1000. \<open>held_store\<close>: an admin has put the account on hold.
  \<open>pending_store\<close>: the user has requested a withdrawal of 200 at a charge of 50.
  \<open>rejected_store\<close>: an admin has rejected that withdrawal. \<open>deposit_store\<close>: the user has
  requested a deposit of 500. \<open>settled_store\<close>: after the rejected withdrawal the user has
  requested a deposit of 500 and an admin has approved it. \<open>large_store\<close>: the user has
  requested a deposit of 6000000000000, and the balance is 0.
\<close>

definition user1 :: profile where
  "user1 = \<lparr>email = ''u1@example.com'', name = ''U One'', phone = None, role = User,
            balance = 1000, kyc_status = KycVerified, kyc_document = None,
            account_status = Active, hold_reason = None\<rparr>"

definition store0 :: db where
  "store0 = \<lparr>profiles = [''u1'' \<mapsto> user1], deposits = Map.empty,
             withdrawals = Map.empty, settings = [''withdrawal_charges'' \<mapsto> ''50''],
             buckets = [''screenshots'' \<mapsto> Map.empty], store_errors = []\<rparr>"

definition bank1 :: bank_details where
  "bank1 = \<lparr>bank_name = ''SBI'', account_number = ''12345678'',
            ifsc_code = ''SBIN0001234'', account_holder_name = ''U One''\<rparr>"

definition held_store :: db where
  "held_store = snd (profileService_setAccountStatus no_faults store0 ''u1'' Hold (Some ''review''))"

definition pending_store :: db where
  "pending_store =
     snd (withdrawalService_create no_faults ''w1'' store0 ''u1'' 200 (netAmount 200 50) 50 bank1)"

definition rejected_store :: db where
  "rejected_store =
     snd (withdrawalService_reject no_faults pending_store ''w1'' 200 ''u1'' (Some ''not eligible''))"

definition deposit_store :: db where
  "deposit_store = snd (depositService_create no_faults ''d1'' store0 ''u1'' 500 None)"


definition large_store :: db where
  "large_store =
     snd (depositService_create no_faults ''d1''
            (snd (profileService_updateBalance no_faults store0 ''u1'' 0))
            ''u1'' 6000000000000 None)"

definition noon :: clock where
  "noon = \<lparr>time_now = 1762171200000, offset_now = 19800000, offset_after = 19800000\<rparr>"

section \<open>Properties\<close>

subsection \<open>Column types\<close>

lemma floor_plus_half: "\<lfloor>(of_int m :: rat) + 1 / 2\<rfloor> = m"
  by (rule floor_unique) simp_all

lemma cents_hundredths: "cents (of_int n / 100) = n"
  by (simp add: cents_def floor_eq_iff)

lemma cents_of_int: "cents (of_int n) = 100 * n"
proof (cases "0 \<le> n")
  case True
  have "(of_int n :: rat) * 100 + 1 / 2 = of_int (100 * n) + 1 / 2"
    by simp
  then have "\<lfloor>(of_int n :: rat) * 100 + 1 / 2\<rfloor> = 100 * n"
    by (simp only: floor_plus_half)
  with True show ?thesis by (simp add: cents_def)
next
  case False
  have "- (of_int n :: rat) * 100 + 1 / 2 = of_int (- (100 * n)) + 1 / 2"
    by simp
  then have "\<lfloor>- (of_int n :: rat) * 100 + 1 / 2\<rfloor> = - (100 * n)"
    by (simp only: floor_plus_half)
  with False show ?thesis by (simp add: cents_def)
qed

lemma cents_numeral: "cents (numeral k) = 100 * numeral k"
  using cents_of_int [of "numeral k"] by simp

lemma cents_0: "cents 0 = 0"
  using cents_of_int [of 0] by simp

lemma round2_of_int: "round2 (of_int n) = of_int n"
  by (simp add: round2_def cents_of_int)

lemma round2_numeral: "round2 (numeral k) = numeral k"
  using round2_of_int [of "numeral k"] by simp

lemma round2_0: "round2 0 = 0"
  using round2_of_int [of 0] by simp

lemma fits_numeral: "fits_decimal (numeral k) = (\<bar>100 * numeral k :: int\<bar> < 10 ^ 15)"
  by (simp only: fits_decimal_def cents_numeral)

lemma fits_0: "fits_decimal 0"
  by (simp add: fits_decimal_def cents_0)

lemma cents_neg_numeral: "cents (- numeral k) = - (100 * numeral k)"
  using cents_of_int [of "- numeral k"] by simp

lemma round2_neg_numeral: "round2 (- numeral k) = - numeral k"
  using round2_of_int [of "- numeral k"] by simp

lemma fits_neg_numeral: "fits_decimal (- numeral k) = (\<bar>100 * numeral k :: int\<bar> < 10 ^ 15)"
  by (simp only: fits_decimal_def cents_neg_numeral abs_minus_cancel)

lemma round2_1: "round2 1 = 1"
  using round2_of_int [of 1] by simp

lemma round2_neg_1: "round2 (- 1) = - 1"
  using round2_of_int [of "- 1"] by simp

lemma fits_1: "fits_decimal 1"
  using cents_of_int [of 1] by (simp add: fits_decimal_def)

lemma fits_neg_1: "fits_decimal (- 1)"
  using cents_of_int [of "- 1"] by (simp add: fits_decimal_def)

lemmas money_simps =
  round2_numeral round2_neg_numeral round2_0 round2_1 round2_neg_1
  fits_numeral fits_neg_numeral fits_0 fits_1 fits_neg_1

lemma two_places_iff: "two_places x \<longleftrightarrow> (\<exists>n. x = of_int n / 100)"
  unfolding two_places_def round2_def
  by (metis cents_hundredths)

lemma two_places_add: "two_places x \<Longrightarrow> two_places y \<Longrightarrow> two_places (x + y)"
  unfolding two_places_iff
  by (metis add_divide_distrib of_int_add)

lemma two_places_numeral: "two_places (numeral k)"
  by (simp add: two_places_def round2_numeral)

lemma round2_nonneg: "0 \<le> x \<Longrightarrow> 0 \<le> round2 x"
  by (simp add: round2_def cents_def)

subsection \<open>Store calls and example stores, evaluated\<close>

lemmas store_call_defs =
  refuse_def served_def select_profile_single_def update_profile_def update_deposit_def
  update_withdrawal_def insert_deposit_def insert_withdrawal_def select_setting_single_def
  upsert_setting_def update_profile_select_single_def storage_upload_def
  no_profile_updates_def apply_updates_def balance_refused_def email_taken_def
  apply_deposit_updates_def apply_withdrawal_updates_def deadline_refusal_def

lemmas service_defs =
  depositService_create_def depositService_approve_def depositService_reject_def
  withdrawalService_create_def withdrawalService_approve_def withdrawalService_reject_def
  withdrawalService_hold_def withdrawalService_startProcessing_def withdrawalService_fail_def
  withdrawalService_uploadPaymentProof_def settingsService_get_def settingsService_getAll_def
  settingsService_update_def profileService_getProfile_def profileService_updateProfile_def
  profileService_updateBalance_def profileService_setAccountStatus_def
  profileService_updateKycStatus_def profileService_submitKyc_def
  depositService_getUserDeposits_def depositService_getAllDeposits_def
  withdrawalService_getUserWithdrawals_def withdrawalService_getAllWithdrawals_def
  settingsService_getBankDetails_def settingsService_updateBankDetails_def
  profileService_getAllUsers_def storageService_uploadScreenshot_def
  storageService_uploadKycDocument_def storageService_uploadQrCode_def

lemma held_store_eq:
  "held_store = store0\<lparr>profiles := [''u1'' \<mapsto> user1\<lparr>account_status := Hold, hold_reason := Some ''review''\<rparr>]\<rparr>"
  by (simp add: held_store_def profileService_setAccountStatus_def store_call_defs
      no_faults_def store0_def user1_def)

lemma pending_store_eq:
  "pending_store =
     store0\<lparr>withdrawals :=
              [''w1'' \<mapsto> \<lparr>wd_user_id = ''u1'', wd_amount = 200, wd_net_amount = 150,
                          wd_charges = 50, wd_bank = bank1, wd_status = WPending,
                          wd_admin_note = None, wd_admin_transaction_ref = None,
                          wd_payment_proof = None, wd_processing_end_time = None\<rparr>],
            profiles := [''u1'' \<mapsto> user1\<lparr>balance := 800\<rparr>]\<rparr>"
  by (simp add: pending_store_def withdrawalService_create_def store_call_defs money_simps
      no_faults_def store0_def user1_def netAmount_def)

lemma rejected_store_eq:
  "rejected_store =
     store0\<lparr>withdrawals :=
              [''w1'' \<mapsto> \<lparr>wd_user_id = ''u1'', wd_amount = 200, wd_net_amount = 150,
                          wd_charges = 50, wd_bank = bank1, wd_status = WRejected,
                          wd_admin_note = Some ''not eligible'', wd_admin_transaction_ref = None,
                          wd_payment_proof = None, wd_processing_end_time = None\<rparr>],
            profiles := [''u1'' \<mapsto> user1]\<rparr>"
  by (simp add: rejected_store_def pending_store_eq withdrawalService_reject_def store_call_defs
      money_simps no_faults_def store0_def user1_def)

lemma deposit_store_eq:
  "deposit_store =
     store0\<lparr>deposits :=
              [''d1'' \<mapsto> \<lparr>dep_user_id = ''u1'', dep_amount = 500, dep_screenshot_url = None,
                          dep_status = DPending, dep_admin_note = None\<rparr>]\<rparr>"
  by (simp add: deposit_store_def depositService_create_def store_call_defs money_simps
      no_faults_def store0_def)


lemma large_store_eq:
  "large_store =
     store0\<lparr>deposits :=
              [''d1'' \<mapsto> \<lparr>dep_user_id = ''u1'', dep_amount = 6000000000000,
                          dep_screenshot_url = None, dep_status = DPending,
                          dep_admin_note = None\<rparr>],
            profiles := [''u1'' \<mapsto> user1\<lparr>balance := 0\<rparr>]\<rparr>"
  by (simp add: large_store_def depositService_create_def profileService_updateBalance_def
      store_call_defs money_simps no_faults_def store0_def user1_def)

subsection \<open>Requests above the balance\<close>

text \<open>
  C1, as stated: a withdrawal request for more than the balance fails with the
  insufficient-balance error and changes nothing, for every profile. The account of
  \<open>held_store\<close> has balance 1000 and is on hold; its request for 2000 is refused with the
  on-hold error, which \<open>create\<close> tests first.
\<close>

theorem create_above_balance_on_hold_counterexample:
  "map_option balance (profiles held_store ''u1'') = Some 1000 \<and>
   withdrawalService_create no_faults ''w1'' held_store ''u1'' 2000 (netAmount 2000 50) 50 bank1
     = (Inl (JsError ''Account is on hold. Please contact support.''), held_store)"
  by (simp add: held_store_eq withdrawalService_create_def select_profile_single_def
      no_faults_def store0_def user1_def)

text \<open>
  C1, amended: for every profile whose row the store returns, a withdrawal request for an
  amount strictly above the balance fails and leaves the store as it was: no row is
  created, no debit is applied. The error is ``Insufficient balance'' when the profile is
  not on hold; for a profile on hold it is the on-hold error, which \<open>create\<close> tests first.
\<close>

theorem create_above_balance_fails_unchanged:
  assumes "profiles s userId = Some p" and "fs 0 = None" and "balance p < amount"
  shows "withdrawalService_create fs newId s userId amount net charges bankDetails
           = (Inl (JsError (if account_status p = Hold
                            then ''Account is on hold. Please contact support.''
                            else ''Insufficient balance'')), s)"
  using assms by (simp add: withdrawalService_create_def select_profile_single_def)

theorem create_above_balance_fails_unchanged_witness:
  "profiles store0 ''u1'' = Some user1 \<and> no_faults 0 = None \<and> balance user1 < 2000 \<and>
   withdrawalService_create no_faults ''w1'' store0 ''u1'' 2000 1950 50 bank1
     = (Inl (JsError ''Insufficient balance''), store0)"
proof -
  have a: "profiles store0 ''u1'' = Some user1" by (simp add: store0_def)
  have b: "no_faults 0 = None" by (simp add: no_faults_def)
  have c: "balance user1 < 2000" by (simp add: user1_def)
  have d: "account_status user1 \<noteq> Hold" by (simp add: user1_def)
  show ?thesis
    using a b c d
      create_above_balance_fails_unchanged [where fs = no_faults and s = store0
        and userId = "''u1''" and p = user1 and amount = 2000 and newId = "''w1''"
        and net = 1950 and charges = 50 and bankDetails = bank1]
    by simp
qed

subsection \<open>Admin transitions on a record in any state\<close>

text \<open>
  What each admin transition does when the store serves and accepts every call. None of
  the lemmas has a hypothesis on the current status of the record.
\<close>

lemma credit_two_places:
  assumes "two_places b" and "two_places a"
  shows "round2 (b + a) = b + a"
  using two_places_add [OF assms] by (simp add: two_places_def)











subsection \<open>Approving a deposit\<close>

text \<open>
  C3, as stated: approving a deposit of amount A credits A exactly once; a repeated call
  for the same deposit id does not credit again. In \<open>deposit_store\<close> the deposit \<open>d1\<close> of
  500 is pending and the balance is 1000. The first approval gives 1500, the repeated one
  2000.
\<close>

theorem approve_twice_credits_twice_counterexample:
  "map_option dep_amount (deposits deposit_store ''d1'') = Some 500 \<and>
   map_option balance (profiles deposit_store ''u1'') = Some 1000 \<and>
   map_option balance
     (profiles (snd (depositService_approve no_faults deposit_store ''d1'' ''u1'' 500)) ''u1'')
     = Some 1500 \<and>
   map_option balance
     (profiles (snd (depositService_approve no_faults
                      (snd (depositService_approve no_faults deposit_store ''d1'' ''u1'' 500))
                      ''d1'' ''u1'' 500)) ''u1'')
     = Some 2000"
  by (simp add: deposit_store_eq depositService_approve_def store_call_defs money_simps
      no_faults_def store0_def user1_def)

text \<open>
  C3, amended: for every deposit of amount A whose owner's balance and A have at most two
  decimal places, one call of \<open>depositService.approve\<close> with the deposit's owner and
  amount, its store calls served and the new balance fitting the balance column, returns
  normally, sets the status to approved and increases the owner's balance by exactly A.
  The call does not read the deposit's status. A further call for the same deposit id
  increases the balance by A again, to 2A in all, when that balance fits the column too;
  when it does not, the further call throws the store's error 22003 and leaves the
  balance increased by A and the status approved.
\<close>

theorem approve_credits_on_every_call:
  assumes "deposits s depositId = Some d" and "profiles s (dep_user_id d) = Some p"
    and "two_places (balance p)" and "two_places (dep_amount d)"
    and "fits_decimal (balance p + dep_amount d)"
  shows "(let r1 = depositService_approve no_faults s depositId (dep_user_id d) (dep_amount d);
              s1 = snd r1;
              r2 = depositService_approve no_faults s1 depositId (dep_user_id d) (dep_amount d);
              s2 = snd r2
          in fst r1 = Inr () \<and>
             map_option dep_status (deposits s1 depositId) = Some DApproved \<and>
             map_option balance (profiles s1 (dep_user_id d)) = Some (balance p + dep_amount d) \<and>
             (fits_decimal (balance p + dep_amount d + dep_amount d) \<longrightarrow>
                fst r2 = Inr () \<and>
                map_option balance (profiles s2 (dep_user_id d))
                  = Some (balance p + dep_amount d + dep_amount d)) \<and>
             (\<not> fits_decimal (balance p + dep_amount d + dep_amount d) \<longrightarrow>
                fst r2 = Inl (PostgrestError ''22003'') \<and>
                map_option dep_status (deposits s2 depositId) = Some DApproved \<and>
                map_option balance (profiles s2 (dep_user_id d)) = Some (balance p + dep_amount d)))"
proof -
  have one: "round2 (balance p + dep_amount d) = balance p + dep_amount d"
    using assms(3,4) by (rule credit_two_places)
  have "two_places (balance p + dep_amount d)"
    using assms(3,4) by (rule two_places_add)
  then have two: "round2 (balance p + dep_amount d + dep_amount d)
                    = balance p + dep_amount d + dep_amount d"
    using assms(4) by (rule credit_two_places)
  show ?thesis
    using assms(1,2,5) one two
    by (simp add: depositService_approve_def store_call_defs no_faults_def Let_def)
qed

text \<open>
  The deposit of 500 in \<open>deposit_store\<close>: 1000, 1500, 2000. The deposit of 6000000000000
  in \<open>large_store\<close>, where the balance is 0: the first approval gives 6000000000000, the
  second is refused by the column and leaves it there.
\<close>

theorem approve_credits_on_every_call_witness:
  "map_option dep_amount (deposits deposit_store ''d1'') = Some 500 \<and>
   map_option balance (profiles deposit_store ''u1'') = Some 1000 \<and>
   two_places 1000 \<and> two_places 500 \<and> fits_decimal (1000 + 500) \<and>
   fits_decimal (1000 + 500 + 500) \<and>
   map_option balance
     (profiles (snd (depositService_approve no_faults
                      (snd (depositService_approve no_faults deposit_store ''d1'' ''u1'' 500))
                      ''d1'' ''u1'' 500)) ''u1'')
     = Some 2000 \<and>
   map_option dep_amount (deposits large_store ''d1'') = Some 6000000000000 \<and>
   map_option balance (profiles large_store ''u1'') = Some 0 \<and>
   fits_decimal (0 + 6000000000000) \<and>
   \<not> fits_decimal (0 + 6000000000000 + 6000000000000) \<and>
   fst (depositService_approve no_faults
          (snd (depositService_approve no_faults large_store ''d1'' ''u1'' 6000000000000))
          ''d1'' ''u1'' 6000000000000)
     = Inl (PostgrestError ''22003'') \<and>
   map_option balance
     (profiles (snd (depositService_approve no_faults
                      (snd (depositService_approve no_faults large_store ''d1'' ''u1'' 6000000000000))
                      ''d1'' ''u1'' 6000000000000)) ''u1'')
     = Some 6000000000000"
proof -
  let ?d = "\<lparr>dep_user_id = ''u1'', dep_amount = 500, dep_screenshot_url = None,
             dep_status = DPending, dep_admin_note = None\<rparr>"
  let ?e = "\<lparr>dep_user_id = ''u1'', dep_amount = 6000000000000, dep_screenshot_url = None,
             dep_status = DPending, dep_admin_note = None\<rparr>"
  have d: "deposits deposit_store ''d1'' = Some ?d"
    by (simp add: deposit_store_eq)
  have p: "profiles deposit_store (dep_user_id ?d) = Some user1"
    by (simp add: deposit_store_eq store0_def)
  have pb: "two_places (balance user1)"
    by (simp add: user1_def two_places_numeral)
  have da: "two_places (dep_amount ?d)"
    by (simp add: two_places_numeral)
  have f: "fits_decimal (balance user1 + dep_amount ?d)"
    by (simp add: user1_def money_simps)
  have e: "deposits large_store ''d1'' = Some ?e"
    by (simp add: large_store_eq)
  have q: "profiles large_store (dep_user_id ?e) = Some (user1\<lparr>balance := 0\<rparr>)"
    by (simp add: large_store_eq)
  have qb: "two_places (balance (user1\<lparr>balance := 0\<rparr>))"
    by (simp add: two_places_def money_simps)
  have ea: "two_places (dep_amount ?e)"
    by (simp add: two_places_numeral)
  have g: "fits_decimal (balance (user1\<lparr>balance := 0\<rparr>) + dep_amount ?e)"
    by (simp add: money_simps)
  show ?thesis
    using approve_credits_on_every_call [OF d p pb da f]
      approve_credits_on_every_call [OF e q qb ea g]
    by (simp add: Let_def d e deposit_store_eq large_store_eq store0_def user1_def
        two_places_numeral money_simps)
qed

subsection \<open>Accounts on hold\<close>

text \<open>
  \<open>withdrawalService.create\<close> refuses every request of a profile on hold, before it looks at
  the amount, and leaves the store as it was.
\<close>

lemma withdrawal_create_on_hold:
  assumes "profiles s userId = Some p" and "fs 0 = None" and "account_status p = Hold"
  shows "withdrawalService_create fs newId s userId amount net charges bankDetails
           = (Inl (JsError ''Account is on hold. Please contact support.''), s)"
  using assms by (simp add: withdrawalService_create_def select_profile_single_def)

text \<open>
  C4: for a profile on hold, creating a deposit and creating a withdrawal both fail with
  the on-hold error and create no record. \<open>depositService.create\<close> does not read the
  profile: for the held account of \<open>held_store\<close> a deposit request of 500 returns the new
  pending row, and the row is in the table.
\<close>

theorem deposit_create_on_hold_creates_row:
  "map_option account_status (profiles held_store ''u1'') = Some Hold \<and>
   depositService_create no_faults ''d1'' held_store ''u1'' 500 None =
     (Inr (''d1'', \<lparr>dep_user_id = ''u1'', dep_amount = 500, dep_screenshot_url = None,
                    dep_status = DPending, dep_admin_note = None\<rparr>),
      held_store\<lparr>deposits :=
                   [''d1'' \<mapsto> \<lparr>dep_user_id = ''u1'', dep_amount = 500, dep_screenshot_url = None,
                               dep_status = DPending, dep_admin_note = None\<rparr>]\<rparr>)"
  by (simp add: held_store_eq depositService_create_def store_call_defs money_simps
      no_faults_def store0_def user1_def)

subsection \<open>The withdraw, process, fail scenario\<close>

text \<open>
  C5: from a profile with balance 1000 and a withdrawal charge of 50, creating a withdrawal
  of gross amount 200 (net 150, charges 50) leaves balance 800 and a record with status
  pending and net amount 150; after \<open>startProcessing\<close> the status is processing; after
  \<open>fail\<close> with reason ``bank rejected'' the balance is 1000 again and the record's admin
  note is ``bank rejected''. The store serves every call; the profile is active and the
  new row's id is fresh; the processing window is one whose deadline is a valid date that
  the deadline column takes.
\<close>

theorem scenario_withdraw_process_fail:
  assumes "profiles s userId = Some p" and "balance p = 1000" and "account_status p = Active"
    and "withdrawals s newId = None"
    and "processingEndTime clk durationMinutes = Some t" and "timestamp_refusal t = None"
  shows "(let s1 = snd (withdrawalService_create no_faults newId s userId
                          200 (netAmount 200 50) 50 bankDetails);
              s2 = snd (withdrawalService_startProcessing no_faults clk s1 newId durationMinutes);
              s3 = snd (withdrawalService_fail no_faults s2 newId 200 userId ''bank rejected'')
          in map_option balance (profiles s1 userId) = Some 800 \<and>
             map_option wd_status (withdrawals s1 newId) = Some WPending \<and>
             map_option wd_net_amount (withdrawals s1 newId) = Some 150 \<and>
             map_option wd_charges (withdrawals s1 newId) = Some 50 \<and>
             map_option wd_status (withdrawals s2 newId) = Some WProcessing \<and>
             map_option balance (profiles s2 userId) = Some 800 \<and>
             map_option wd_status (withdrawals s3 newId) = Some WFailed \<and>
             map_option balance (profiles s3 userId) = Some 1000 \<and>
             map_option wd_admin_note (withdrawals s3 newId) = Some (Some ''bank rejected''))"
  using assms
  by (simp add: withdrawalService_create_def withdrawalService_startProcessing_def
      withdrawalService_fail_def store_call_defs money_simps no_faults_def Let_def netAmount_def)

theorem scenario_withdraw_process_fail_witness:
  "profiles store0 ''u1'' = Some user1 \<and> balance user1 = 1000 \<and> account_status user1 = Active \<and>
   withdrawals store0 ''w1'' = None \<and>
   processingEndTime noon (Some 30) = Some 1762173000000 \<and>
   timestamp_refusal 1762173000000 = None \<and>
   map_option balance
     (profiles (snd (withdrawalService_create no_faults ''w1'' store0 ''u1''
                       200 (netAmount 200 50) 50 bank1)) ''u1'') = Some 800 \<and>
   map_option wd_status
     (withdrawals
        (snd (withdrawalService_startProcessing no_faults noon
               (snd (withdrawalService_create no_faults ''w1'' store0 ''u1''
                       200 (netAmount 200 50) 50 bank1))
               ''w1'' (Some 30)))
        ''w1'') = Some WProcessing \<and>
   map_option balance
     (profiles
        (snd (withdrawalService_fail no_faults
               (snd (withdrawalService_startProcessing no_faults noon
                      (snd (withdrawalService_create no_faults ''w1'' store0 ''u1''
                              200 (netAmount 200 50) 50 bank1))
                      ''w1'' (Some 30)))
               ''w1'' 200 ''u1'' ''bank rejected''))
        ''u1'') = Some 1000"
proof -
  have a: "profiles store0 ''u1'' = Some user1" by (simp add: store0_def)
  have b: "balance user1 = 1000" by (simp add: user1_def)
  have c: "account_status user1 = Active" by (simp add: user1_def)
  have d: "withdrawals store0 ''w1'' = None" by (simp add: store0_def)
  have e: "processingEndTime noon (Some 30) = Some 1762173000000"
    by (simp add: processingEndTime_def noon_def)
  have t: "timestamp_refusal 1762173000000 = None"
    by (simp add: timestamp_refusal_def)
  show ?thesis
    using scenario_withdraw_process_fail [OF a b c d e t, of bank1] a b c d e t
    by (simp add: Let_def)
qed

text \<open>
  Outside such a window \<open>startProcessing\<close> does not reach the store: a duration that is
  not a finite number, or one that takes the date out of range, makes \<open>toISOString\<close> throw,
  and the record stays as it was.
\<close>

lemma startProcessing_invalid_date:
  assumes "processingEndTime clk durationMinutes = None"
  shows "withdrawalService_startProcessing fs clk s withdrawalId durationMinutes
           = (Inl (RangeError ''Invalid time value''), s)"
  using assms by (simp add: withdrawalService_startProcessing_def)

lemma startProcessing_out_of_range:
  "processingEndTime noon (Some 1000000000000) = None \<and>
   processingEndTime noon None = None"
  by (simp add: processingEndTime_def noon_def)

subsection \<open>Order of the status write and the balance write\<close>

text \<open>
  Each service function issues its store calls one after the other, and each call is
  applied to the tables when it is answered. The store a function leaves behind when its
  \<open>k\<close>-th call fails is therefore the store as it stands between call \<open>k - 1\<close> and call \<open>k\<close>
  of every run, which is what any reader of the tables sees at that moment.
\<close>

lemma create_three_calls:
  assumes "select_profile_single (fs 0) s userId = (Inr prof, s0)"
    and "account_status prof \<noteq> Hold" and "\<not> balance prof < amount"
    and "insert_withdrawal (fs 1) s0 newId userId amount net charges bankDetails = (Inr data, s1)"
    and "update_profile (fs 2) s1 userId
           (no_profile_updates\<lparr>upd_balance := Some (balance prof - amount)\<rparr>) = (Inr (), s2)"
  shows "withdrawalService_create fs newId s userId amount net charges bankDetails = (Inr data, s2)"
  using assms by (simp add: withdrawalService_create_def)










subsection \<open>Completing a withdrawal\<close>

text \<open>
  C7: the transition to completed (\<open>withdrawalService.approve\<close>) has no balance effect. For
  every withdrawal record and every answer of the store, the call leaves the profiles,
  the deposits, the settings and every other withdrawal as they were, and of the record
  itself it changes at most the status and the admin transaction reference; when it
  returns normally, the status is completed and the reference is the one given (null for
  an absent or empty one).
\<close>

theorem withdrawal_approve_frame:
  assumes "withdrawals s withdrawalId = Some w"
  shows "(let r = withdrawalService_approve fs s withdrawalId userId transactionRef; s' = snd r in
     profiles s' = profiles s \<and> deposits s' = deposits s \<and> settings s' = settings s \<and>
     (\<forall>other. other \<noteq> withdrawalId \<longrightarrow> withdrawals s' other = withdrawals s other) \<and>
     (\<exists>w'. withdrawals s' withdrawalId = Some w' \<and>
        wd_user_id w' = wd_user_id w \<and> wd_amount w' = wd_amount w \<and>
        wd_net_amount w' = wd_net_amount w \<and> wd_charges w' = wd_charges w \<and>
        wd_bank w' = wd_bank w \<and> wd_admin_note w' = wd_admin_note w \<and>
        wd_payment_proof w' = wd_payment_proof w \<and>
        wd_processing_end_time w' = wd_processing_end_time w \<and>
        (fst r = Inr () \<longrightarrow>
           wd_status w' = WCompleted \<and>
           wd_admin_transaction_ref w' =
             (case transactionRef of None \<Rightarrow> None | Some t \<Rightarrow> if t = [] then None else Some t))))"
  using assms
  by (cases "fs 0") (simp_all add: withdrawalService_approve_def store_call_defs Let_def)

theorem withdrawal_approve_frame_witness:
  "withdrawals pending_store ''w1'' \<noteq> None \<and>
   fst (withdrawalService_approve no_faults pending_store ''w1'' ''u1'' (Some ''TXN-1'')) = Inr () \<and>
   profiles (snd (withdrawalService_approve no_faults pending_store ''w1'' ''u1'' (Some ''TXN-1'')))
     = profiles pending_store \<and>
   map_option wd_status
     (withdrawals (snd (withdrawalService_approve no_faults pending_store ''w1'' ''u1'' (Some ''TXN-1'')))
        ''w1'') = Some WCompleted"
proof -
  have w: "withdrawals pending_store ''w1'' =
      Some \<lparr>wd_user_id = ''u1'', wd_amount = 200, wd_net_amount = 150,
            wd_charges = 50, wd_bank = bank1, wd_status = WPending,
            wd_admin_note = None, wd_admin_transaction_ref = None,
            wd_payment_proof = None, wd_processing_end_time = None\<rparr>"
    by (simp add: pending_store_eq)
  have r: "fst (withdrawalService_approve no_faults pending_store ''w1'' ''u1'' (Some ''TXN-1'')) = Inr ()"
    using w by (simp add: withdrawalService_approve_def store_call_defs no_faults_def)
  show ?thesis
    using withdrawal_approve_frame [OF w, of no_faults "''u1''" "Some ''TXN-1''"] w r
    by (auto simp add: Let_def)
qed

subsection \<open>Sign of the balance\<close>

text \<open>
  C8, as stated: in every reachable state every balance is non-negative.
  \<open>profileService.updateBalance\<close> writes the number it is given; from \<open>store0\<close>, where the
  balance is 1000, the single call \<open>updateBalance('u1', -1)\<close> leaves the balance at -1.
\<close>

theorem updateBalance_negative_counterexample:
  "map_option balance (profiles store0 ''u1'') = Some 1000 \<and>
   fst (profileService_updateBalance no_faults store0 ''u1'' (- 1)) = Inr () \<and>
   map_option balance (profiles (run [(no_faults, UpdateBalance ''u1'' (- 1))] store0) ''u1'')
     = Some (- 1)"
  by (simp add: profileService_updateBalance_def store_call_defs money_simps no_faults_def
      store0_def user1_def)

lemma exec_nonneg:
  assumes "balances_nonneg s" and "writes_nonneg c"
  shows "balances_nonneg (exec fs c s)"
  using assms
  by (cases c)
     (auto simp add: service_defs store_call_defs typed_updates_def balances_nonneg_def
           round2_nonneg
           split: option.splits sum.splits if_splits)

text \<open>
  C8, amended: starting from a store in which every balance is non-negative, every balance
  is non-negative after any sequence of service calls, under any answers of the store,
  provided that every amount handed to \<open>depositService.approve\<close>, \<open>withdrawalService.reject\<close>
  and \<open>withdrawalService.fail\<close>, and every balance handed to \<open>profileService.updateBalance\<close>
  and \<open>profileService.updateProfile\<close>, is non-negative. The debit of
  \<open>withdrawalService.create\<close> needs no such proviso. The service itself does not check the
  sign of any of these numbers.
\<close>

theorem balances_nonneg_run:
  assumes "balances_nonneg s" and "\<forall>(fs, c) \<in> set cs. writes_nonneg c"
  shows "balances_nonneg (run cs s)"
  using assms
proof (induction cs arbitrary: s)
  case Nil
  then show ?case by simp
next
  case (Cons a cs)
  obtain fs c where a: "a = (fs, c)" by (cases a)
  from Cons.prems a have "balances_nonneg (exec fs c s)"
    by (simp add: exec_nonneg)
  moreover from Cons.prems have "\<forall>(fs, c) \<in> set cs. writes_nonneg c"
    by simp
  ultimately show ?case
    using Cons.IH a by simp
qed

theorem balances_nonneg_run_witness:
  "balances_nonneg store0 \<and>
   writes_nonneg (WithdrawalCreate ''w1'' ''u1'' 200 150 50 bank1) \<and>
   writes_nonneg (WithdrawalReject ''w1'' 200 ''u1'' None) \<and>
   writes_nonneg (UpdateBalance ''u1'' 0) \<and>
   balances_nonneg
     (run [(no_faults, WithdrawalCreate ''w1'' ''u1'' 200 150 50 bank1),
           (fault_at 2 ''connection lost'', WithdrawalReject ''w1'' 200 ''u1'' None),
           (no_faults, UpdateBalance ''u1'' 0)] store0)"
proof -
  have a: "balances_nonneg store0"
    by (simp add: balances_nonneg_def store0_def user1_def)
  have b: "\<forall>(fs, c) \<in> set [(no_faults, WithdrawalCreate ''w1'' ''u1'' 200 150 50 bank1),
                            (fault_at 2 ''connection lost'', WithdrawalReject ''w1'' 200 ''u1'' None),
                            (no_faults, UpdateBalance ''u1'' 0)]. writes_nonneg c"
    by simp
  show ?thesis
    using a balances_nonneg_run [OF a b] by simp
qed

subsection \<open>Errors of the store\<close>

text \<open>
  C9, as stated: every operation surfaces the errors of the store, and
  \<open>settingsService.get\<close> in particular surfaces a store error rather than returning null.
  When the store fails the one call of \<open>settingsService.get\<close>, the function returns null,
  although the key has a value.
\<close>

theorem settingsService_get_swallows_error_counterexample:
  "settings store0 ''withdrawal_charges'' = Some ''50'' \<and>
   fst (settingsService_get (fault_at 0 ''connection lost'') store0 ''withdrawal_charges'')
     = Inr None \<and>
   thrown (fault_at 0 ''connection lost'') (SettingsGet ''withdrawal_charges'') store0 = None \<and>
   store_errors (snd (settingsService_get (fault_at 0 ''connection lost'') store0
                        ''withdrawal_charges''))
     = [PostgrestError ''connection lost'']"
  by (simp add: settingsService_get_def store_call_defs error_of_def fault_at_def store0_def)

lemma store_error_thrown_as_answered:
  assumes "\<forall>key. c \<noteq> SettingsGet key"
  shows "(store_errors (exec fs c s) = store_errors s \<and>
           (thrown fs c s = None \<or> (\<exists>e. thrown fs c s = Some e \<and> own_error c e))) \<or>
         (\<exists>e. store_errors (exec fs c s) = e # store_errors s \<and> thrown fs c s = Some e)"
  using assms
  by (cases c)
     (auto simp add: service_defs store_call_defs error_of_def
           split: option.splits sum.splits if_splits prod.splits)

lemma failed_call_thrown_or_not_issued:
  assumes "\<forall>key. c \<noteq> SettingsGet key" and "fs k = Some msg"
  shows "thrown fs c s = Some (PostgrestError msg) \<or> thrown fs c s = Some (StorageError msg) \<or>
         thrown fs c s = thrown (fs(k := None)) c s"
  using assms
  by (cases c)
     (auto simp add: service_defs store_call_defs error_of_def
           split: option.splits sum.splits if_splits prod.splits)

lemma settingsService_get_result:
  "thrown fs (SettingsGet key) s = None \<and>
   fst (settingsService_get fs s key)
     = Inr (case fs 0 of Some msg \<Rightarrow> None | None \<Rightarrow> settings s key) \<and>
   store_errors (exec fs (SettingsGet key) s)
     = (case fs 0 of
          Some msg \<Rightarrow> [PostgrestError msg]
        | None \<Rightarrow> (case settings s key of None \<Rightarrow> [PostgrestError ''PGRST116''] | Some v \<Rightarrow> []))
       @ store_errors s"
  by (simp add: settingsService_get_def store_call_defs error_of_def split: option.splits)

text \<open>
  C9, amended: every operation other than \<open>settingsService.get\<close>, those of storageService
  included, surfaces the errors of the store with their reason. Either none of its store
  calls is answered with an error, and then it returns normally or throws an error of its
  own (\<open>withdrawalService.create\<close>: account on hold, insufficient balance;
  \<open>startProcessing\<close>: the \<open>RangeError\<close> of an invalid date); or exactly one of its store
  calls is answered with an error, whatever the call (the first or a later one) and
  whatever the error (a failure of the call or a refusal by the store), and the operation
  throws that very error. So when the store fails the \<open>k\<close>-th call with a message, the
  operation throws the error with that message, unless the run is the one it makes when
  that call is served (the operation has ended before issuing the call).
  \<open>settingsService.get\<close> never throws: when its store call is answered with an error, a
  missing key included, it returns null.
\<close>

theorem store_errors_surface_except_settingsService_get:
  assumes "\<forall>key. c \<noteq> SettingsGet key"
  shows "((store_errors (exec fs c s) = store_errors s \<and>
            (thrown fs c s = None \<or> (\<exists>e. thrown fs c s = Some e \<and> own_error c e))) \<or>
          (\<exists>e. store_errors (exec fs c s) = e # store_errors s \<and> thrown fs c s = Some e)) \<and>
         (\<forall>k msg. fs k = Some msg \<longrightarrow>
            thrown fs c s = Some (PostgrestError msg) \<or>
            thrown fs c s = Some (StorageError msg) \<or>
            thrown fs c s = thrown (fs(k := None)) c s) \<and>
         thrown fs (SettingsGet key) s = None \<and>
         fst (settingsService_get fs s key)
           = Inr (case fs 0 of Some msg \<Rightarrow> None | None \<Rightarrow> settings s key) \<and>
         store_errors (exec fs (SettingsGet key) s)
           = (case fs 0 of
                Some msg \<Rightarrow> [PostgrestError msg]
              | None \<Rightarrow> (case settings s key of
                           None \<Rightarrow> [PostgrestError ''PGRST116'']
                         | Some v \<Rightarrow> []))
             @ store_errors s"
  using store_error_thrown_as_answered [OF assms, of fs s]
    failed_call_thrown_or_not_issued [OF assms, of fs _ _ s]
    settingsService_get_result [of fs key s]
  by blast

text \<open>
  Rejecting \<open>w1\<close> in \<open>pending_store\<close> while the store fails the third call, the write of the
  balance: the error thrown is the one the store answered, and it is the only one. With
  every call served the same call returns normally.
\<close>

theorem store_errors_surface_except_settingsService_get_witness:
  "(\<forall>key. WithdrawalReject ''w1'' 200 ''u1'' None \<noteq> SettingsGet key) \<and>
   fault_at 2 ''connection lost'' 2 = Some ''connection lost'' \<and>
   thrown (fault_at 2 ''connection lost'') (WithdrawalReject ''w1'' 200 ''u1'' None) pending_store
     = Some (PostgrestError ''connection lost'') \<and>
   store_errors (exec (fault_at 2 ''connection lost'') (WithdrawalReject ''w1'' 200 ''u1'' None)
                   pending_store)
     = [PostgrestError ''connection lost''] \<and>
   thrown no_faults (WithdrawalReject ''w1'' 200 ''u1'' None) pending_store = None"
proof -
  have a: "\<forall>key. WithdrawalReject ''w1'' 200 ''u1'' None \<noteq> SettingsGet key"
    by simp
  have b: "fault_at 2 ''connection lost'' 2 = Some ''connection lost''"
    by (simp add: fault_at_def)
  have c: "thrown no_faults (WithdrawalReject ''w1'' 200 ''u1'' None) pending_store = None"
    by (simp add: pending_store_eq withdrawalService_reject_def store_call_defs error_of_def
        money_simps no_faults_def store0_def user1_def)
  have d: "thrown (fault_at 2 ''connection lost'') (WithdrawalReject ''w1'' 200 ''u1'' None)
             pending_store = Some (PostgrestError ''connection lost'')"
    by (simp add: pending_store_eq withdrawalService_reject_def store_call_defs error_of_def
        fault_at_def store0_def user1_def)
  have e: "store_errors pending_store = []"
    by (simp add: pending_store_eq store0_def)
  show ?thesis
    using a b c d e
      store_errors_surface_except_settingsService_get
        [OF a, of "fault_at 2 ''connection lost''" pending_store "''k''"]
    by auto
qed

subsection \<open>Uploading a payment proof\<close>

text \<open>
  C10: for every withdrawal record, whatever its current status (the terminal states
  rejected and failed and the frozen state held included), \<open>uploadPaymentProof\<close>, its
  store call served, sets the status to completed and stores the proof; nothing else in
  the store changes, in particular no balance.
\<close>

theorem uploadPaymentProof_completes_any_record:
  assumes "withdrawals s withdrawalId = Some w" and "fs 0 = None"
  shows "withdrawalService_uploadPaymentProof fs s withdrawalId base64Proof =
           (Inr (), s\<lparr>withdrawals := (withdrawals s)(withdrawalId \<mapsto>
                        w\<lparr>wd_payment_proof := Some base64Proof, wd_status := WCompleted\<rparr>)\<rparr>) \<and>
         profiles (snd (withdrawalService_uploadPaymentProof fs s withdrawalId base64Proof))
           = profiles s"
  using assms
  by (cases w) (simp add: withdrawalService_uploadPaymentProof_def store_call_defs)

theorem uploadPaymentProof_completes_any_record_witness:
  "map_option wd_status (withdrawals rejected_store ''w1'') = Some WRejected \<and>
   no_faults 0 = None \<and>
   fst (withdrawalService_uploadPaymentProof no_faults rejected_store ''w1'' ''cHJvb2Y='') = Inr () \<and>
   map_option wd_status
     (withdrawals (snd (withdrawalService_uploadPaymentProof no_faults rejected_store
                          ''w1'' ''cHJvb2Y='')) ''w1'') = Some WCompleted \<and>
   map_option wd_payment_proof
     (withdrawals (snd (withdrawalService_uploadPaymentProof no_faults rejected_store
                          ''w1'' ''cHJvb2Y='')) ''w1'') = Some (Some ''cHJvb2Y='') \<and>
   profiles (snd (withdrawalService_uploadPaymentProof no_faults rejected_store ''w1'' ''cHJvb2Y=''))
     = profiles rejected_store"
proof -
  have w: "withdrawals rejected_store ''w1'' =
      Some \<lparr>wd_user_id = ''u1'', wd_amount = 200, wd_net_amount = 150,
            wd_charges = 50, wd_bank = bank1, wd_status = WRejected,
            wd_admin_note = Some ''not eligible'', wd_admin_transaction_ref = None,
            wd_payment_proof = None, wd_processing_end_time = None\<rparr>"
    by (simp add: rejected_store_eq)
  have f: "no_faults 0 = None"
    by (simp add: no_faults_def)
  show ?thesis
    using w f
      uploadPaymentProof_completes_any_record [where fs = no_faults and s = rejected_store
        and withdrawalId = "''w1''" and base64Proof = "''cHJvb2Y=''", OF w f]
    by simp
qed

end
